theory Spec2Isabelle
  imports Main "HOL-Library.Word"
begin

unbundle bit_operations_syntax

section \<open>The digest used by \<open>hex\<close>\<close>

text \<open>
  \<^verbatim>\<open>hex\<close> (app.ts, lines 69-73) calls Node's \<^verbatim>\<open>createHash("sha256")\<close>,
  \<^verbatim>\<open>update(value)\<close> and \<^verbatim>\<open>digest("hex")\<close>. That is SHA-256 (FIPS 180-4) of the
  UTF-8 bytes of the string, printed as 64 lowercase hexadecimal digits. A \<open>string\<close> of
  this theory is that byte sequence. All arithmetic is on 32-bit words; the round
  constants are written in decimal.
\<close>

type_synonym u32 = "32 word"

definition rotr :: "nat \<Rightarrow> u32 \<Rightarrow> u32" where
  "rotr n x = drop_bit n x OR push_bit (32 - n) x"

definition Ch :: "u32 \<Rightarrow> u32 \<Rightarrow> u32 \<Rightarrow> u32" where
  "Ch x y z = (x AND y) XOR (NOT x AND z)"

definition Maj :: "u32 \<Rightarrow> u32 \<Rightarrow> u32 \<Rightarrow> u32" where
  "Maj x y z = (x AND y) XOR (x AND z) XOR (y AND z)"

definition bsig0 :: "u32 \<Rightarrow> u32" where
  "bsig0 x = rotr 2 x XOR rotr 13 x XOR rotr 22 x"

definition bsig1 :: "u32 \<Rightarrow> u32" where
  "bsig1 x = rotr 6 x XOR rotr 11 x XOR rotr 25 x"

definition ssig0 :: "u32 \<Rightarrow> u32" where
  "ssig0 x = rotr 7 x XOR rotr 18 x XOR drop_bit 3 x"

definition ssig1 :: "u32 \<Rightarrow> u32" where
  "ssig1 x = rotr 17 x XOR rotr 19 x XOR drop_bit 10 x"

definition sha256_K :: "u32 list" where
  "sha256_K =
   [1116352408, 1899447441, 3049323471, 3921009573, 961987163, 1508970993,
    2453635748, 2870763221, 3624381080, 310598401, 607225278, 1426881987,
    1925078388, 2162078206, 2614888103, 3248222580, 3835390401, 4022224774,
    264347078, 604807628, 770255983, 1249150122, 1555081692, 1996064986,
    2554220882, 2821834349, 2952996808, 3210313671, 3336571891, 3584528711,
    113926993, 338241895, 666307205, 773529912, 1294757372, 1396182291,
    1695183700, 1986661051, 2177026350, 2456956037, 2730485921, 2820302411,
    3259730800, 3345764771, 3516065817, 3600352804, 4094571909, 275423344,
    430227734, 506948616, 659060556, 883997877, 958139571, 1322822218,
    1537002063, 1747873779, 1955562222, 2024104815, 2227730452, 2361852424,
    2428436474, 2756734187, 3204031479, 3329325298]"

definition sha256_H0 :: "u32 list" where
  "sha256_H0 = [1779033703, 3144134277, 1013904242, 2773480762,
                1359893119, 2600822924, 528734635, 1541459225]"

text \<open>Padding: the byte 128, then zero bytes up to 56 modulo 64; the length in bits
  follows as two words.\<close>

definition pad :: "u32 list \<Rightarrow> u32 list" where
  "pad m = m @ [128] @ replicate ((119 - length m mod 64) mod 64) 0"

fun be_words :: "u32 list \<Rightarrow> u32 list" where
  "be_words (a # b # c # d # r) =
     (push_bit 24 a OR push_bit 16 b OR push_bit 8 c OR d) # be_words r"
| "be_words _ = []"

definition bit_length :: "u32 list \<Rightarrow> u32 list" where
  "bit_length m =
     (let n = (of_nat (length m) :: 64 word) * 8
      in [ucast (drop_bit 32 n), ucast n])"

fun blocks :: "u32 list \<Rightarrow> u32 list list" where
  "blocks [] = []"
| "blocks (w # ws) = take 16 (w # ws) # blocks (drop 16 (w # ws))"

text \<open>The message schedule is built newest word first.\<close>

definition sha_extend :: "u32 list \<Rightarrow> u32 list" where
  "sha_extend ws = (ssig1 (ws ! 1) + ws ! 6 + ssig0 (ws ! 14) + ws ! 15) # ws"

definition schedule :: "u32 list \<Rightarrow> u32 list" where
  "schedule blk = rev (fold (\<lambda>_. sha_extend) [0..<48] (rev blk))"

fun sha_round :: "u32 \<times> u32 \<Rightarrow> u32 list \<Rightarrow> u32 list" where
  "sha_round (k, w) [a, b, c, d, e, f, g, h] =
     (let t1 = h + bsig1 e + Ch e f g + k + w;
          t2 = bsig0 a + Maj a b c
      in [t1 + t2, a, b, c, d + t1, e, f, g])"
| "sha_round _ s = s"

definition compress :: "u32 list \<Rightarrow> u32 list \<Rightarrow> u32 list" where
  "compress blk hs = map2 (+) hs (fold sha_round (zip sha256_K (schedule blk)) hs)"

definition hexdigits :: string where
  "hexdigits = ''0123456789abcdef''"

definition hexdigit :: "u32 \<Rightarrow> char" where
  "hexdigit w = hexdigits ! unat (w AND 15)"

definition hex32 :: "u32 \<Rightarrow> string" where
  "hex32 w = map (\<lambda>i. hexdigit (drop_bit (4 * i) w)) (rev [0..<8])"

definition sha256_hex :: "string \<Rightarrow> string" where
  "sha256_hex s =
     (let m = map of_char s
      in concat (map hex32
           (fold compress (blocks (be_words (pad m) @ bit_length m)) sha256_H0)))"

section \<open>Customer documents\<close>

text \<open>
  The type \<^verbatim>\<open>Customer\<close> is imported from \<^verbatim>\<open>./declarations\<close>; its fields are the ones
  app.ts reads and writes. \<open>oid\<close> is the field \<^verbatim>\<open>_id\<close>; \<open>createdAt\<close> is the time value of
  the stored date, in milliseconds since the epoch.
\<close>

record customer_address =
  line1 :: string
  line2 :: string
  postcode :: string
  city :: string
  state :: string
  country :: string

record customer =
  oid :: nat
  firstName :: string
  lastName :: string
  email :: string
  address :: customer_address
  createdAt :: int

datatype error = TypeError | RangeError | DuplicateKey | EmptyBatch | LockExists

definition bind_err :: "error + 'a \<Rightarrow> ('a \<Rightarrow> error + 'b) \<Rightarrow> error + 'b" where
  "bind_err r f = (case r of Inl e \<Rightarrow> Inl e | Inr x \<Rightarrow> f x)"

section \<open>The anonymizer\<close>

text \<open>
  \<^verbatim>\<open>hex\<close>: the first 8 characters of the digest. A JavaScript value that may be
  \<^verbatim>\<open>undefined\<close> is an \<open>option\<close>; \<^verbatim>\<open>hash.update(undefined)\<close> throws a TypeError.
\<close>

definition hex :: "string option \<Rightarrow> error + string" where
  "hex v = (case v of None \<Rightarrow> Inl TypeError | Some s \<Rightarrow> Inr (take 8 (sha256_hex s)))"

text \<open>\<^verbatim>\<open>String.prototype.split\<close> with a one-character separator: one piece more than
  there are separators, so never an empty array.\<close>

fun js_split :: "char \<Rightarrow> string \<Rightarrow> string list" where
  "js_split sep [] = [[]]"
| "js_split sep (c # cs) =
     (if c = sep then [] # js_split sep cs
      else (case js_split sep cs of [] \<Rightarrow> [[c]] | p # ps \<Rightarrow> (c # p) # ps))"

text \<open>Array destructuring \<^verbatim>\<open>[loginPart, hostPart] = ...\<close> reads an index; past the end
  it yields \<^verbatim>\<open>undefined\<close>.\<close>

definition at_index :: "'a list \<Rightarrow> nat \<Rightarrow> 'a option" where
  "at_index xs i = (if i < length xs then Some (xs ! i) else None)"

text \<open>A template literal prints \<^verbatim>\<open>undefined\<close> as the nine letters.\<close>

definition interpolate :: "string option \<Rightarrow> string" where
  "interpolate v = (case v of None \<Rightarrow> ''undefined'' | Some s \<Rightarrow> s)"

text \<open>
  \<^verbatim>\<open>anonymizeCustomer\<close> (lines 75-84), on the field values: one assignment after the
  other, in the order of the source.
\<close>

definition anonymizeCustomer :: "customer \<Rightarrow> error + customer" where
  "anonymizeCustomer customer =
     bind_err (hex (Some (firstName customer))) (\<lambda>h1.
     let c1 = customer\<lparr>firstName := h1\<rparr> in
     bind_err (hex (Some (lastName c1))) (\<lambda>h2.
     let c2 = c1\<lparr>lastName := h2\<rparr>;
         parts = js_split CHR ''@'' (email c2);
         loginPart = at_index parts 0;
         hostPart = at_index parts 1 in
     bind_err (hex loginPart) (\<lambda>h3.
     let c3 = c2\<lparr>email := h3 @ ''@'' @ interpolate hostPart\<rparr> in
     bind_err (hex (Some (line1 (address c3)))) (\<lambda>h4.
     let c4 = c3\<lparr>address := (address c3)\<lparr>line1 := h4\<rparr>\<rparr> in
     bind_err (hex (Some (line2 (address c4)))) (\<lambda>h5.
     let c5 = c4\<lparr>address := (address c4)\<lparr>line2 := h5\<rparr>\<rparr> in
     bind_err (hex (Some (postcode (address c5)))) (\<lambda>h6.
     Inr (c5\<lparr>address := (address c5)\<lparr>postcode := h6\<rparr>\<rparr>)))))))"

text \<open>
  The same function on objects. A JavaScript object is passed by reference: the
  assignments of lines 76-82 write into the caller's object, and line 83 returns that
  reference. The heap maps references to the field values of the object they denote
  (the nested address object belongs to its customer).
\<close>

type_synonym ref = nat
type_synonym heap = "ref \<Rightarrow> customer option"

definition anonymizeCustomer_at :: "heap \<Rightarrow> ref \<Rightarrow> error + (heap \<times> ref)" where
  "anonymizeCustomer_at h r =
     (case h r of
        None \<Rightarrow> Inl TypeError
      | Some c \<Rightarrow> bind_err (anonymizeCustomer c) (\<lambda>c'. Inr (h(r \<mapsto> c'), r)))"

section \<open>The store\<close>

text \<open>
  A collection is the list of its documents in insertion order. The operations are the
  ones app.ts calls on a MongoDB collection: a sorted \<^verbatim>\<open>find\<close>, \<^verbatim>\<open>findOne\<close>,
  \<^verbatim>\<open>insertOne\<close>, \<^verbatim>\<open>insertMany\<close> and \<^verbatim>\<open>updateOne\<close>. The store keeps \<^verbatim>\<open>_id\<close> unique:
  inserting a document whose \<^verbatim>\<open>_id\<close> is present is rejected (duplicate key), and the
  driver rejects an empty batch. A cursor is the list of documents the query selects
  when it is issued.
\<close>

type_synonym collection = "customer list"

datatype jsdate = Date int | InvalidDate

text \<open>
  What the program takes from its platform and cannot be read off app.ts: how
  \<^verbatim>\<open>new Date(text)\<close> reads a text that \<^verbatim>\<open>toISOString\<close> did not print, and which
  documents the store selects for \<^verbatim>\<open>{createdAt: {$gt: d}}\<close> when \<open>d\<close> is an invalid date.
\<close>

record runtime =
  parseDate :: "string \<Rightarrow> jsdate"
  gtInvalidDate :: "customer \<Rightarrow> bool"

definition sortByCreatedAt :: "collection \<Rightarrow> customer list" where
  "sortByCreatedAt docs = sort_key createdAt docs"

definition findOneById :: "collection \<Rightarrow> nat \<Rightarrow> customer option" where
  "findOneById docs i = find (\<lambda>d. oid d = i) docs"

text \<open>\<^verbatim>\<open>findOne({}, {sort: [["createdAt", 1]]})\<close>\<close>

definition findOneOldest :: "collection \<Rightarrow> customer option" where
  "findOneOldest docs = (case sortByCreatedAt docs of [] \<Rightarrow> None | d # _ \<Rightarrow> Some d)"

text \<open>The filter \<^verbatim>\<open>{createdAt: {$gt: pointer}}\<close>; an undefined bound selects nothing.\<close>

definition createdAfter :: "runtime \<Rightarrow> jsdate option \<Rightarrow> customer \<Rightarrow> bool" where
  "createdAfter rt bound d =
     (case bound of
        None \<Rightarrow> False
      | Some (Date t) \<Rightarrow> t < createdAt d
      | Some InvalidDate \<Rightarrow> gtInvalidDate rt d)"

text \<open>\<^verbatim>\<open>limit(n)\<close>: 0 is no limit, and a negative \<open>n\<close> limits to its absolute value.\<close>

definition cursor_limit :: "int \<Rightarrow> 'a list \<Rightarrow> 'a list" where
  "cursor_limit n xs = (if n = 0 then xs else take (nat \<bar>n\<bar>) xs)"

definition insertOne :: "collection \<Rightarrow> customer \<Rightarrow> error + collection" where
  "insertOne docs d =
     (if oid d \<in> oid ` set docs then Inl DuplicateKey else Inr (docs @ [d]))"

text \<open>An ordered bulk insert stops at the first rejected document and keeps the
  documents inserted before it.\<close>

fun insertEach :: "collection \<Rightarrow> customer list \<Rightarrow> error option \<times> collection" where
  "insertEach docs [] = (None, docs)"
| "insertEach docs (d # ds) =
     (case insertOne docs d of
        Inl e \<Rightarrow> (Some e, docs)
      | Inr docs' \<Rightarrow> insertEach docs' ds)"

definition insertMany :: "collection \<Rightarrow> customer list \<Rightarrow> error option \<times> collection" where
  "insertMany docs ds = (if ds = [] then (Some EmptyBatch, docs) else insertEach docs ds)"

text \<open>\<^verbatim>\<open>updateOne({_id: i}, {$set: d})\<close>: the first document with that \<^verbatim>\<open>_id\<close> takes
  every field of \<open>d\<close>.\<close>

fun updateOne :: "collection \<Rightarrow> nat \<Rightarrow> customer \<Rightarrow> collection" where
  "updateOne [] i d = []"
| "updateOne (x # xs) i d = (if oid x = i then d # xs else x # updateOne xs i d)"

section \<open>The world outside the process\<close>

text \<open>
  The two collections, the lock file (\<^verbatim>\<open>.lock\<close>: held when it exists), the checkpoint
  file (\<^verbatim>\<open>.pointer\<close>) and the clock. The checkpoint file holds a text:
  \<open>ISOString t\<close> is the text \<^verbatim>\<open>new Date(t).toISOString()\<close>, which \<^verbatim>\<open>new Date(text)\<close>
  reads back as \<open>t\<close>; \<open>OtherText s\<close> is any other content.
  The trace lists, in order, the accesses to the collections and the checkpoint writes,
  with the actor that issued them.
\<close>

datatype file_text = ISOString int | OtherText string

datatype actor = FullReindexer | ForwardSyncer | Reconciler

datatype access = SourceRead | TargetRead | TargetWrite | CheckpointWrite int

record world =
  source :: collection
  target :: collection
  lockfile :: bool
  pointer_store :: "file_text option"
  clock :: int
  trace :: "(actor \<times> access) list"

definition emit :: "actor \<Rightarrow> access \<Rightarrow> world \<Rightarrow> world" where
  "emit a x w = w\<lparr>trace := trace w @ [(a, x)]\<rparr>"

definition newDate :: "runtime \<Rightarrow> file_text \<Rightarrow> jsdate" where
  "newDate rt txt = (case txt of ISOString t \<Rightarrow> Date t | OtherText s \<Rightarrow> parseDate rt s)"

section \<open>The full reindexer\<close>

text \<open>The first loop of \<^verbatim>\<open>fullReindex\<close> (lines 91-103), over the target cursor.\<close>

fun reindex_update ::
  "customer list \<Rightarrow> int option \<Rightarrow> world \<Rightarrow> (error + int option) \<times> world" where
  "reindex_update [] lastCreatedAt w = (Inr lastCreatedAt, w)"
| "reindex_update (targetCustomer # rest) lastCreatedAt w =
     (let w1 = emit FullReindexer SourceRead w in
      case findOneById (source w1) (oid targetCustomer) of
        None \<Rightarrow> reindex_update rest lastCreatedAt w1
      | Some sourceCustomer \<Rightarrow>
          (case anonymizeCustomer sourceCustomer of
             Inl e \<Rightarrow> (Inl e, w1)
           | Inr newTargetCustomer \<Rightarrow>
               if targetCustomer = newTargetCustomer
               then reindex_update rest (Some (createdAt targetCustomer)) w1
               else reindex_update rest (Some (createdAt targetCustomer))
                      (emit FullReindexer TargetWrite
                         (w1\<lparr>target := updateOne (target w1) (oid targetCustomer)
                                           newTargetCustomer\<rparr>))))"

text \<open>The second loop (lines 123-127), over the source cursor.\<close>

fun reindex_insert :: "customer list \<Rightarrow> int \<Rightarrow> world \<Rightarrow> (error + int) \<times> world" where
  "reindex_insert [] lastCreatedAt w = (Inr lastCreatedAt, w)"
| "reindex_insert (sourceCustomer # rest) lastCreatedAt w =
     (case anonymizeCustomer sourceCustomer of
        Inl e \<Rightarrow> (Inl e, w)
      | Inr newTargetCustomer \<Rightarrow>
          (let w1 = emit FullReindexer TargetWrite w in
           case insertOne (target w1) newTargetCustomer of
             Inl e \<Rightarrow> (Inl e, w1)
           | Inr docs \<Rightarrow>
               reindex_insert rest (createdAt newTargetCustomer) (w1\<lparr>target := docs\<rparr>)))"

text \<open>Lines 106-117: the starting pointer when no target record had a source record.
  \<open>None\<close> is the \<^verbatim>\<open>return\<close> of line 113.\<close>

definition reindex_start :: "int option \<Rightarrow> world \<Rightarrow> int option \<times> world" where
  "reindex_start lastCreatedAt w =
     (case lastCreatedAt of
        Some t \<Rightarrow> (Some t, w)
      | None \<Rightarrow>
          (let w1 = emit FullReindexer SourceRead w in
           case findOneOldest (source w1) of
             None \<Rightarrow> (None, w1)
           | Some firstCustomer \<Rightarrow> (Some (createdAt firstCustomer - 60 * 1000), w1)))"

definition fullReindex :: "runtime \<Rightarrow> world \<Rightarrow> error option \<times> world" where
  "fullReindex rt w =
     (let w1 = emit FullReindexer TargetRead w in
      case reindex_update (sortByCreatedAt (target w1)) None w1 of
        (Inl e, w2) \<Rightarrow> (Some e, w2)
      | (Inr found, w2) \<Rightarrow>
          (case reindex_start found w2 of
             (None, w3) \<Rightarrow> (None, w3)
           | (Some lastCreatedAt, w3) \<Rightarrow>
               (let w4 = emit FullReindexer SourceRead w3;
                    cursor = sortByCreatedAt
                               (filter (createdAfter rt (Some (Date lastCreatedAt))) (source w4))
                in case reindex_insert cursor lastCreatedAt w4 of
                     (Inl e, w5) \<Rightarrow> (Some e, w5)
                   | (Inr t, w5) \<Rightarrow>
                       (None, emit FullReindexer (CheckpointWrite t)
                                (w5\<lparr>pointer_store := Some (ISOString t)\<rparr>)))))"

section \<open>The forward syncer\<close>

record pursuer =
  pointer :: "jsdate option"
  window :: int
  buffer :: "customer list"

text \<open>\<open>BUFFER_SIZE\<close> is the result of \<^verbatim>\<open>parseInt\<close>: \<open>None\<close> is \<^verbatim>\<open>NaN\<close>.\<close>

definition new_Pursuer :: "int option \<Rightarrow> pursuer" where
  "new_Pursuer BUFFER_SIZE =
     \<lparr>pointer = None,
      window = (case BUFFER_SIZE of Some n \<Rightarrow> n | None \<Rightarrow> 1000),
      buffer = []\<rparr>"

definition loadPointer :: "runtime \<Rightarrow> pursuer \<Rightarrow> world \<Rightarrow> pursuer \<times> world" where
  "loadPointer rt p w =
     (case pointer_store w of
        Some rawPointer \<Rightarrow> (p\<lparr>pointer := Some (newDate rt rawPointer)\<rparr>, w)
      | None \<Rightarrow>
          (let w1 = emit ForwardSyncer SourceRead w;
               lastCustomer = findOneOldest (source w1);
               t = (case lastCustomer of Some c \<Rightarrow> createdAt c | None \<Rightarrow> clock w1);
               aMinuteEarlier = t - 60 * 1000
           in (p\<lparr>pointer := Some (Date aMinuteEarlier)\<rparr>, w1)))"

text \<open>\<^verbatim>\<open>toISOString\<close> throws a RangeError on an invalid date.\<close>

definition storePointer :: "pursuer \<Rightarrow> world \<Rightarrow> error option \<times> world" where
  "storePointer p w =
     (case pointer p of
        None \<Rightarrow> (None, w)
      | Some InvalidDate \<Rightarrow> (Some RangeError, w)
      | Some (Date t) \<Rightarrow>
          (None, emit ForwardSyncer (CheckpointWrite t)
                   (w\<lparr>pointer_store := Some (ISOString t)\<rparr>)))"

text \<open>The query of lines 247-251. The store sorts, then skips, then limits.\<close>

definition forward_query :: "runtime \<Rightarrow> pursuer \<Rightarrow> collection \<Rightarrow> customer list" where
  "forward_query rt p docs =
     cursor_limit (window p - int (length (buffer p)))
       (drop (length (buffer p))
          (sortByCreatedAt (filter (createdAfter rt (pointer p)) docs)))"

text \<open>Lines 253-256: each fetched record is anonymized and pushed.\<close>

fun push_anonymized :: "customer list \<Rightarrow> customer list \<Rightarrow> error option \<times> customer list" where
  "push_anonymized [] buf = (None, buf)"
| "push_anonymized (customer # rest) buf =
     (case anonymizeCustomer customer of
        Inl e \<Rightarrow> (Some e, buf)
      | Inr newTargetCustomer \<Rightarrow> push_anonymized rest (buf @ [newTargetCustomer]))"

text \<open>
  \<^verbatim>\<open>Pursuer.loop\<close> (lines 242-267). The call of \<^verbatim>\<open>storePointer\<close> is not awaited: an
  error it raises does not reach \<^verbatim>\<open>loop\<close>.
\<close>

definition loop :: "runtime \<Rightarrow> pursuer \<Rightarrow> world \<Rightarrow> error option \<times> pursuer \<times> world" where
  "loop rt p w =
     (let (p1, w1) = (if pointer p = None then loadPointer rt p w else (p, w));
          bufferAlreadyExists = (buffer p1 \<noteq> []);
          w2 = emit ForwardSyncer SourceRead w1;
          (failure, buf) = push_anonymized (forward_query rt p1 (source w2)) (buffer p1);
          p2 = p1\<lparr>buffer := buf\<rparr>
      in case failure of
           Some e \<Rightarrow> (Some e, p2, w2)
         | None \<Rightarrow>
             if int (length (buffer p2)) = window p2 \<or> bufferAlreadyExists then
               (let (rejected, docs) = insertMany (target w2) (buffer p2);
                    w3 = emit ForwardSyncer TargetWrite (w2\<lparr>target := docs\<rparr>)
                in case rejected of
                     Some e \<Rightarrow> (Some e, p2, w3)
                   | None \<Rightarrow>
                       (let p3 = p2\<lparr>pointer :=
                                      (case buffer p2 of
                                         [] \<Rightarrow> pointer p2
                                       | _ # _ \<Rightarrow> Some (Date (createdAt (last (buffer p2)))))\<rparr>;
                            w4 = snd (storePointer p3 w3)
                        in (None, p3\<lparr>buffer := []\<rparr>, w4)))
             else (None, p2, w2))"

text \<open>The callback that \<^verbatim>\<open>Pursuer.run\<close> hands to \<^verbatim>\<open>setInterval\<close> (lines 270-277).\<close>

definition Pursuer_tick :: "runtime \<Rightarrow> pursuer \<Rightarrow> world \<Rightarrow> error option \<times> pursuer \<times> world" where
  "Pursuer_tick rt p w =
     (if \<not> lockfile w then loop rt p w else (None, p\<lparr>pointer := None\<rparr>, w))"

section \<open>The reconciler\<close>

text \<open>
  The updater holds its cursor and the retries it has scheduled with
  \<^verbatim>\<open>setTimeout(..., 3000)\<close>. An open cursor carries the documents its stream has yet to
  deliver.
\<close>

datatype cursor = NoCursor | OpenCursor "customer list" | ClosedCursor

record updater =
  cursor :: cursor
  timers :: "nat list"

definition new_Updater :: updater where
  "new_Updater = \<lparr>cursor = NoCursor, timers = []\<rparr>"

definition onData :: "customer \<Rightarrow> world \<Rightarrow> error option \<times> world" where
  "onData targetCustomer w =
     (let w1 = emit Reconciler SourceRead w in
      case findOneById (source w1) (oid targetCustomer) of
        None \<Rightarrow> (None, w1)
      | Some sourceCustomer \<Rightarrow>
          (case anonymizeCustomer sourceCustomer of
             Inl e \<Rightarrow> (Some e, w1)
           | Inr newTargetCustomer \<Rightarrow>
               if targetCustomer = newTargetCustomer then (None, w1)
               else (None, emit Reconciler TargetWrite
                             (w1\<lparr>target := updateOne (target w1) (oid targetCustomer)
                                               newTargetCustomer\<rparr>))))"

definition buildStream :: "updater \<Rightarrow> world \<Rightarrow> updater \<times> world" where
  "buildStream u w =
     (let w1 = emit Reconciler TargetRead w
      in (u\<lparr>cursor := OpenCursor (sortByCreatedAt (target w1))\<rparr>, w1))"

definition Updater_run :: "updater \<Rightarrow> world \<Rightarrow> updater \<times> world" where
  "Updater_run u w =
     (if lockfile w then (u\<lparr>timers := timers u @ [3000]\<rparr>, w) else buildStream u w)"

text \<open>The listener of the stream's \<^verbatim>\<open>data\<close> event (lines 160-167).\<close>

definition on_data :: "customer \<Rightarrow> updater \<Rightarrow> world \<Rightarrow> error option \<times> updater \<times> world" where
  "on_data targetCustomer u w =
     (if \<not> lockfile w then
        (let (failure, w1) = onData targetCustomer w in (failure, u, w1))
      else
        (let (u1, w1) = Updater_run (u\<lparr>cursor := ClosedCursor\<rparr>) w in (None, u1, w1)))"

text \<open>The stream delivers the next document of an open cursor, or \<^verbatim>\<open>end\<close> (lines
  169-171) when none is left.\<close>

definition stream_event :: "updater \<Rightarrow> world \<Rightarrow> error option \<times> updater \<times> world" where
  "stream_event u w =
     (case cursor u of
        OpenCursor (d # ds) \<Rightarrow> on_data d (u\<lparr>cursor := OpenCursor ds\<rparr>) w
      | OpenCursor [] \<Rightarrow>
          (let (u1, w1) = Updater_run (u\<lparr>cursor := ClosedCursor\<rparr>) w in (None, u1, w1))
      | _ \<Rightarrow> (None, u, w))"

text \<open>The oldest scheduled retry fires (lines 194-196).\<close>

definition timer_event :: "updater \<Rightarrow> world \<Rightarrow> updater \<times> world" where
  "timer_event u w =
     (case timers u of
        [] \<Rightarrow> (u, w)
      | _ # ts \<Rightarrow> Updater_run (u\<lparr>timers := ts\<rparr>) w)"

section \<open>Startup\<close>

record config =
  DB_URI :: "string option"
  SOURCE_COLLECTION :: "string option"
  TARGET_COLLECTION :: "string option"
  BUFFER_SIZE :: "int option"
  argv :: "string list"

definition IS_FULL_REINDEX :: string where
  "IS_FULL_REINDEX = ''--full-reindex''"

text \<open>\<^verbatim>\<open>!x\<close> for an environment variable: undefined or the empty string.\<close>

definition unset :: "string option \<Rightarrow> bool" where
  "unset v = (v = None \<or> v = Some [])"

text \<open>
  The \<^verbatim>\<open>lockfile\<close> package. It keeps, in the process, the paths of the locks the process
  has taken. \<^verbatim>\<open>lockSync\<close> creates the file, throwing when it exists, and records the
  path; \<^verbatim>\<open>unlockSync\<close> removes the file and the path. When the process exits, the
  package's exit hook unlocks every path still recorded.
\<close>

definition LOCKFILE :: string where
  "LOCKFILE = ''.lock''"

type_synonym registry = "string list"

definition lockSync :: "registry \<Rightarrow> world \<Rightarrow> error + (registry \<times> world)" where
  "lockSync locks w =
     (if lockfile w then Inl LockExists else Inr (LOCKFILE # locks, w\<lparr>lockfile := True\<rparr>))"

definition unlockSync :: "registry \<Rightarrow> world \<Rightarrow> registry \<times> world" where
  "unlockSync locks w = (removeAll LOCKFILE locks, w\<lparr>lockfile := False\<rparr>)"

definition exit_hook :: "registry \<Rightarrow> world \<Rightarrow> world" where
  "exit_hook locks w = (if LOCKFILE \<in> set locks then snd (unlockSync locks w) else w)"

text \<open>
  How \<^verbatim>\<open>run\<close> (lines 281-304) leaves the process: nothing started, \<^verbatim>\<open>process.exit\<close>
  with a status, the promise of \<^verbatim>\<open>run\<close> rejected with an error (line 306 prints it, and
  the process lives on until it exits for another reason), or the two continuous actors
  installed and running. \<^verbatim>\<open>run\<close> also yields the locks the process has recorded; at
  \<^verbatim>\<open>process.exit\<close> the exit hook has run.
\<close>

datatype outcome = NoAction | ProcessExit int | Rejected error | Continuous pursuer updater

definition run :: "runtime \<Rightarrow> config \<Rightarrow> world \<Rightarrow> outcome \<times> registry \<times> world" where
  "run rt cfg w =
     (if unset (DB_URI cfg) \<or> unset (SOURCE_COLLECTION cfg) \<or> unset (TARGET_COLLECTION cfg)
      then (NoAction, [], w)
      else if IS_FULL_REINDEX \<in> set (argv cfg) \<and> \<not> lockfile w then
        (case lockSync [] w of
           Inl e \<Rightarrow> (Rejected e, [], w)
         | Inr (locks1, w1) \<Rightarrow>
             (case fullReindex rt w1 of
                (Some e, w2) \<Rightarrow> (Rejected e, locks1, w2)
              | (None, w2) \<Rightarrow>
                  (let (locks2, w3) = unlockSync locks1 w2
                   in (ProcessExit 0, locks2, exit_hook locks2 w3))))
      else
        (let pursuer = new_Pursuer (BUFFER_SIZE cfg);
             (updater, w1) = Updater_run new_Updater w
         in (Continuous pursuer updater, [], w1)))"

section \<open>A continuous run\<close>

text \<open>
  A run of the continuous mode is a sequence of steps: a tick of the forward syncer, an
  event of the reconciler's stream or timer, a change made from outside (to the source,
  the target, the lock or the clock), or a step of another process started with
  \<^verbatim>\<open>--full-reindex\<close> on the same collections and files. That process runs lines
  291-293 of \<^verbatim>\<open>run\<close>: it takes the lock, awaits \<^verbatim>\<open>fullReindex\<close> and releases the lock;
  the steps of this process can fall between those three. An error of a tick or of an
  event rejects that callback only.
\<close>

datatype step =
    Tick
  | StreamEvent
  | TimerEvent
  | SourceBecomes collection
  | TargetBecomes collection
  | LockBecomes bool
  | ClockBecomes int
  | ReindexerLocks
  | ReindexerWorks
  | ReindexerUnlocks

fun do_step :: "runtime \<Rightarrow> step \<Rightarrow> pursuer \<times> updater \<times> world \<Rightarrow> pursuer \<times> updater \<times> world" where
  "do_step rt Tick (p, u, w) = (let (failure, p1, w1) = Pursuer_tick rt p w in (p1, u, w1))"
| "do_step rt StreamEvent (p, u, w) = (let (failure, u1, w1) = stream_event u w in (p, u1, w1))"
| "do_step rt TimerEvent (p, u, w) = (let (u1, w1) = timer_event u w in (p, u1, w1))"
| "do_step rt (SourceBecomes docs) (p, u, w) = (p, u, w\<lparr>source := docs\<rparr>)"
| "do_step rt (TargetBecomes docs) (p, u, w) = (p, u, w\<lparr>target := docs\<rparr>)"
| "do_step rt (LockBecomes b) (p, u, w) = (p, u, w\<lparr>lockfile := b\<rparr>)"
| "do_step rt (ClockBecomes t) (p, u, w) = (p, u, w\<lparr>clock := t\<rparr>)"
| "do_step rt ReindexerLocks (p, u, w) =
     (p, u, case lockSync [] w of Inl e \<Rightarrow> w | Inr (locks, w1) \<Rightarrow> w1)"
| "do_step rt ReindexerWorks (p, u, w) = (p, u, snd (fullReindex rt w))"
| "do_step rt ReindexerUnlocks (p, u, w) = (p, u, snd (unlockSync [LOCKFILE] w))"

definition do_steps ::
  "runtime \<Rightarrow> step list \<Rightarrow> pursuer \<times> updater \<times> world \<Rightarrow> pursuer \<times> updater \<times> world" where
  "do_steps rt steps s = fold (do_step rt) steps s"

text \<open>The steps of the two continuous actors, and the steps of a full reindex.\<close>

fun actor_step :: "step \<Rightarrow> bool" where
  "actor_step Tick = True"
| "actor_step StreamEvent = True"
| "actor_step TimerEvent = True"
| "actor_step _ = False"


text \<open>The checkpoints an actor has stored, oldest first.\<close>

fun checkpoint_by :: "actor \<Rightarrow> actor \<times> access \<Rightarrow> int list" where
  "checkpoint_by a (b, CheckpointWrite t) = (if b = a then [t] else [])"
| "checkpoint_by a (b, _) = []"

definition checkpoints_of :: "actor \<Rightarrow> world \<Rightarrow> int list" where
  "checkpoints_of a w = concat (map (checkpoint_by a) (trace w))"

text \<open>The number of writes to the target an actor has issued.\<close>

definition target_writes :: "actor \<Rightarrow> world \<Rightarrow> nat" where
  "target_writes a w = length (filter (\<lambda>e. e = (a, TargetWrite)) (trace w))"

section \<open>Derived notions used in the statements\<close>

text \<open>The record \<^verbatim>\<open>anonymizeCustomer\<close> returns, when it returns one.\<close>

definition anonymized :: "customer \<Rightarrow> customer" where
  "anonymized c = (case anonymizeCustomer c of Inr c' \<Rightarrow> c' | Inl _ \<Rightarrow> c)"

text \<open>Eight characters, each a lowercase hexadecimal digit.\<close>

definition hex8 :: "string \<Rightarrow> bool" where
  "hex8 s = (length s = 8 \<and> list_all (\<lambda>c. c \<in> set hexdigits) s)"

text \<open>Line 243: the pointer is loaded when there is none in memory.\<close>

definition with_pointer :: "runtime \<Rightarrow> pursuer \<Rightarrow> world \<Rightarrow> pursuer \<times> world" where
  "with_pointer rt p w = (if pointer p = None then loadPointer rt p w else (p, w))"

text \<open>The buffer of a tick after its fetch: what it held, then the anonymized form of
  each record the query returned.\<close>

definition refilled :: "runtime \<Rightarrow> pursuer \<Rightarrow> world \<Rightarrow> customer list" where
  "refilled rt p w =
     (let p1 = fst (with_pointer rt p w)
      in buffer p1 @ map anonymized (forward_query rt p1 (source w)))"

text \<open>The condition of line 258.\<close>

definition flush_due :: "runtime \<Rightarrow> pursuer \<Rightarrow> world \<Rightarrow> bool" where
  "flush_due rt p w = (int (length (refilled rt p w)) = window p \<or> buffer p \<noteq> [])"

text \<open>The store accepts a batch: it is not empty, and no \<^verbatim>\<open>_id\<close> of it occurs twice or
  is in the collection.\<close>

definition accepts :: "collection \<Rightarrow> customer list \<Rightarrow> bool" where
  "accepts docs ds =
     (ds \<noteq> [] \<and> distinct (map oid ds) \<and> list_all (\<lambda>d. oid d \<notin> oid ` set docs) ds)"


section \<open>Sample inputs\<close>

definition jane :: customer where
  "jane = \<lparr>oid = 1, firstName = ''Jane'', lastName = ''Doe'',
           email = ''jane.doe@example.com'',
           address = \<lparr>line1 = ''34801 Kurt Spur'', line2 = ''Suite 028'',
                      postcode = ''90210'', city = ''Springfield'', state = ''Ohio'',
                      country = ''US''\<rparr>,
           createdAt = 1700000000000\<rparr>"

definition jane_anonymized :: customer where
  "jane_anonymized =
     \<lparr>oid = 1, firstName = take 8 (sha256_hex ''Jane''),
      lastName = take 8 (sha256_hex ''Doe''),
      email = take 8 (sha256_hex ''jane.doe'') @ ''@example.com'',
      address = \<lparr>line1 = take 8 (sha256_hex ''34801 Kurt Spur''),
                 line2 = take 8 (sha256_hex ''Suite 028''),
                 postcode = take 8 (sha256_hex ''90210''),
                 city = ''Springfield'', state = ''Ohio'', country = ''US''\<rparr>,
      createdAt = 1700000000000\<rparr>"

text \<open>The same customer with an email that has no \<open>@\<close>, and with one that has two.\<close>

definition jane_no_at :: customer where
  "jane_no_at = jane\<lparr>email := ''jane.doe''\<rparr>"

definition jane_two_ats :: customer where
  "jane_two_ats = jane\<lparr>email := ''jane@doe@example.com''\<rparr>"

text \<open>A platform whose \<^verbatim>\<open>Date\<close> reads no text but the ISO format, with a store in which
  no date is greater than an invalid one.\<close>

definition strict_runtime :: runtime where
  "strict_runtime = \<lparr>parseDate = (\<lambda>_. InvalidDate), gtInvalidDate = (\<lambda>_. False)\<rparr>"

definition empty_world :: world where
  "empty_world =
     \<lparr>source = [], target = [], lockfile = False, pointer_store = None,
      clock = 1700000300000, trace = []\<rparr>"

definition reindex_config :: config where
  "reindex_config =
     \<lparr>DB_URI = Some ''mongodb://localhost/shop'', SOURCE_COLLECTION = Some ''customers'',
      TARGET_COLLECTION = Some ''customers_anonymised'', BUFFER_SIZE = None,
      argv = [''node'', ''app.js'', ''--full-reindex'']\<rparr>"


definition locked_world :: world where
  "locked_world = empty_world\<lparr>source := [jane], lockfile := True\<rparr>"


definition one_record_world :: world where
  "one_record_world = empty_world\<lparr>source := [jane]\<rparr>"

text \<open>The same world once the anonymized record is in the target.\<close>

definition synced_world :: world where
  "synced_world = one_record_world\<lparr>target := [jane_anonymized]\<rparr>"





text \<open>A platform like \<open>strict_runtime\<close> whose driver sends an invalid date to the store
  as the time value 0, so that every record created after the epoch is greater.\<close>

definition driver_runtime :: runtime where
  "driver_runtime = \<lparr>parseDate = (\<lambda>_. InvalidDate), gtInvalidDate = (\<lambda>d. 0 < createdAt d)\<rparr>"

text \<open>One source record and a checkpoint file that holds no timestamp.\<close>

definition garbled_world :: world where
  "garbled_world = one_record_world\<lparr>pointer_store := Some (OtherText ''not a date'')\<rparr>"

section \<open>Properties of the digest\<close>

lemma sha_round_length: "length s = 8 \<Longrightarrow> length (sha_round kw s) = 8"
proof -
  assume "length s = 8"
  then obtain a b c d e f g h where "s = [a, b, c, d, e, f, g, h]"
    by (auto simp: length_Suc_conv eval_nat_numeral)
  then show ?thesis
    by (cases kw) (simp add: Let_def)
qed

lemma fold_round_length: "length s = 8 \<Longrightarrow> length (fold sha_round kws s) = 8"
  by (induction kws arbitrary: s) (simp_all add: sha_round_length)

lemma compress_length: "length hs = 8 \<Longrightarrow> length (compress blk hs) = 8"
  by (simp add: compress_def fold_round_length)

lemma fold_compress_length: "length hs = 8 \<Longrightarrow> length (fold compress bs hs) = 8"
  by (induction bs arbitrary: hs) (simp_all add: compress_length)

lemma hexdigit_in: "hexdigit w \<in> set hexdigits"
proof -
  have "unat (w AND 15) \<le> unat (15 :: u32)"
    by (rule word_and_le1 [THEN word_le_nat_alt [THEN iffD1]])
  then have "unat (w AND 15) < length hexdigits"
    by (simp add: hexdigits_def)
  then show ?thesis
    unfolding hexdigit_def by (rule nth_mem)
qed

lemma hex32_length: "length (hex32 w) = 8"
  by (simp add: hex32_def)

lemma hex32_set: "set (hex32 w) \<subseteq> set hexdigits"
  unfolding hex32_def using hexdigit_in by auto

lemma concat_hex32_length: "length (concat (map hex32 ws)) = 8 * length ws"
  by (induction ws) (simp_all add: hex32_length)

lemma sha256_hex_length: "length (sha256_hex s) = 64"
  by (simp add: sha256_hex_def Let_def concat_hex32_length fold_compress_length sha256_H0_def)

lemma concat_hex32_set: "set (concat (map hex32 ws)) \<subseteq> set hexdigits"
proof (induction ws)
  case Nil
  show ?case by simp
next
  case (Cons w ws)
  have "set (concat (map hex32 (w # ws))) = set (hex32 w) \<union> set (concat (map hex32 ws))"
    by simp
  with Cons hex32_set [of w] show ?case
    by blast
qed

lemma sha256_hex_set: "set (sha256_hex s) \<subseteq> set hexdigits"
  unfolding sha256_hex_def Let_def by (rule concat_hex32_set)

lemma digest8_length: "length (take 8 (sha256_hex s)) = 8"
  by (simp add: sha256_hex_length)

lemma digest8_set: "set (take 8 (sha256_hex s)) \<subseteq> set hexdigits"
  by (rule subset_trans [OF set_take_subset sha256_hex_set])

section \<open>The anonymizer\<close>

lemma hex8_digest: "hex8 (take 8 (sha256_hex s))"
proof -
  have "\<forall>c \<in> set (take 8 (sha256_hex s)). c \<in> set hexdigits"
    using digest8_set [of s] by blast
  then show ?thesis
    unfolding hex8_def list_all_iff using digest8_length [of s] by blast
qed

lemma hex_Some: "hex (Some s) = Inr (take 8 (sha256_hex s))"
  by (simp add: hex_def)

lemma js_split_not_Nil: "js_split sep s \<noteq> []"
  by (induction s) (auto split: list.splits)

lemma js_split_no_sep: "sep \<notin> set s \<Longrightarrow> js_split sep s = [s]"
  by (induction s) auto

lemma js_split_at_sep:
  "sep \<notin> set l \<Longrightarrow> js_split sep (l @ sep # r) = l # js_split sep r"
  by (induction l) auto

lemma at_index_0: "xs \<noteq> [] \<Longrightarrow> at_index xs 0 = Some (hd xs)"
  by (cases xs) (simp_all add: at_index_def)

text \<open>The login part is always defined, so no call of \<open>hex\<close> can throw: the function
  returns a record whatever the email is.\<close>

lemma anonymizeCustomer_result:
  "anonymizeCustomer c =
     Inr (c\<lparr>firstName := take 8 (sha256_hex (firstName c)),
            lastName := take 8 (sha256_hex (lastName c)),
            email := take 8 (sha256_hex (hd (js_split CHR ''@'' (email c)))) @ ''@''
                       @ interpolate (at_index (js_split CHR ''@'' (email c)) 1),
            address := (address c)\<lparr>line1 := take 8 (sha256_hex (line1 (address c))),
                                   line2 := take 8 (sha256_hex (line2 (address c))),
                                   postcode := take 8 (sha256_hex (postcode (address c)))\<rparr>\<rparr>)"
  by (simp add: anonymizeCustomer_def bind_err_def Let_def hex_Some
      at_index_0 [OF js_split_not_Nil])

lemma anonymizeCustomer_anonymized: "anonymizeCustomer c = Inr (anonymized c)"
  by (simp add: anonymized_def anonymizeCustomer_result)

lemma anonymized_oid: "oid (anonymized c) = oid c"
  by (simp add: anonymized_def anonymizeCustomer_result)

lemma anonymized_createdAt: "createdAt (anonymized c) = createdAt c"
  by (simp add: anonymized_def anonymizeCustomer_result)

lemma jane_anonymized: "anonymizeCustomer jane = Inr jane_anonymized"
  by (simp add: anonymizeCustomer_result jane_def jane_anonymized_def at_index_def
      interpolate_def)

lemma jane_anonymized_differs: "jane_anonymized \<noteq> jane"
proof
  assume "jane_anonymized = jane"
  then have "firstName jane_anonymized = firstName jane"
    by simp
  then have "length (take 8 (sha256_hex ''Jane'')) = length ''Jane''"
    by (simp add: jane_def jane_anonymized_def)
  then show False
    using digest8_length [of "''Jane''"] by simp
qed

text \<open>
  Claim C3, as amended. The transform is deterministic and touches nothing but its
  argument, but it is not a pure function of a record: it overwrites the fields of the
  object it is given and returns that same object. Two objects with the same field
  values end with the same field values; the rest of the heap is unchanged.
\<close>

theorem anonymizeCustomer_in_place:
  assumes "h r = Some c" and "h' r' = Some c"
  shows "\<exists>c'. anonymizeCustomer_at h r = Inr (h(r \<mapsto> c'), r)
            \<and> anonymizeCustomer_at h' r' = Inr (h'(r' \<mapsto> c'), r')"
proof (intro exI conjI)
  show "anonymizeCustomer_at h r = Inr (h(r \<mapsto> anonymized c), r)"
    using assms(1)
    by (simp add: anonymizeCustomer_at_def bind_err_def anonymizeCustomer_anonymized)
  show "anonymizeCustomer_at h' r' = Inr (h'(r' \<mapsto> anonymized c), r')"
    using assms(2)
    by (simp add: anonymizeCustomer_at_def bind_err_def anonymizeCustomer_anonymized)
qed

theorem anonymizeCustomer_in_place_witness:
  "\<exists>c'. anonymizeCustomer_at [0 \<mapsto> jane] 0 = Inr ([0 \<mapsto> jane](0 \<mapsto> c'), 0)
       \<and> anonymizeCustomer_at [5 \<mapsto> jane] 5 = Inr ([5 \<mapsto> jane](5 \<mapsto> c'), 5)"
  using anonymizeCustomer_in_place [of "[0 \<mapsto> jane]" 0 jane "[5 \<mapsto> jane]" 5]
  by simp

text \<open>The input object of C3 does not keep its fields: after the call the reference
  that was passed denotes the anonymized record, and it is the reference returned.\<close>

theorem anonymizeCustomer_not_pure:
  "anonymizeCustomer_at [0 \<mapsto> jane] 0 = Inr ([0 \<mapsto> jane_anonymized], 0)
   \<and> [0 \<mapsto> jane_anonymized] 0 \<noteq> [0 \<mapsto> jane] 0"
  using jane_anonymized_differs
  by (simp add: anonymizeCustomer_at_def bind_err_def jane_anonymized)

text \<open>
  Claim C4, as amended: for an email with exactly one \<open>@\<close>. The identity and the
  creation timestamp are kept; first name, last name, line1, line2 and postcode become
  the first 8 characters of the SHA-256 hexadecimal digest of their value, and those are
  8 lowercase hexadecimal digits; the email becomes the same digest of the local part,
  the \<open>@\<close> and the domain as it was; city, state and country are kept.
\<close>

theorem anonymizeCustomer_fields:
  assumes "email c = local_part @ CHR ''@'' # domain_part"
    and "CHR ''@'' \<notin> set local_part" and "CHR ''@'' \<notin> set domain_part"
  shows "anonymizeCustomer c =
           Inr \<lparr>oid = oid c,
                firstName = take 8 (sha256_hex (firstName c)),
                lastName = take 8 (sha256_hex (lastName c)),
                email = take 8 (sha256_hex local_part) @ CHR ''@'' # domain_part,
                address = \<lparr>line1 = take 8 (sha256_hex (line1 (address c))),
                           line2 = take 8 (sha256_hex (line2 (address c))),
                           postcode = take 8 (sha256_hex (postcode (address c))),
                           city = city (address c),
                           state = state (address c),
                           country = country (address c)\<rparr>,
                createdAt = createdAt c\<rparr>
         \<and> hex8 (take 8 (sha256_hex (firstName c)))
         \<and> hex8 (take 8 (sha256_hex (lastName c)))
         \<and> hex8 (take 8 (sha256_hex local_part))
         \<and> hex8 (take 8 (sha256_hex (line1 (address c))))
         \<and> hex8 (take 8 (sha256_hex (line2 (address c))))
         \<and> hex8 (take 8 (sha256_hex (postcode (address c))))"
proof -
  have parts: "js_split CHR ''@'' (email c) = [local_part, domain_part]"
    using assms by (simp add: js_split_at_sep js_split_no_sep)
  have "anonymizeCustomer c =
           Inr \<lparr>oid = oid c,
                firstName = take 8 (sha256_hex (firstName c)),
                lastName = take 8 (sha256_hex (lastName c)),
                email = take 8 (sha256_hex local_part) @ CHR ''@'' # domain_part,
                address = \<lparr>line1 = take 8 (sha256_hex (line1 (address c))),
                           line2 = take 8 (sha256_hex (line2 (address c))),
                           postcode = take 8 (sha256_hex (postcode (address c))),
                           city = city (address c),
                           state = state (address c),
                           country = country (address c)\<rparr>,
                createdAt = createdAt c\<rparr>"
    unfolding anonymizeCustomer_result parts
    by (cases c, cases "address c") (simp add: at_index_def interpolate_def)
  then show ?thesis
    by (simp add: hex8_digest)
qed

theorem anonymizeCustomer_fields_witness:
  "anonymizeCustomer jane = Inr jane_anonymized
   \<and> hex8 (take 8 (sha256_hex ''Jane''))
   \<and> hex8 (take 8 (sha256_hex ''Doe''))
   \<and> hex8 (take 8 (sha256_hex ''jane.doe''))
   \<and> hex8 (take 8 (sha256_hex ''34801 Kurt Spur''))
   \<and> hex8 (take 8 (sha256_hex ''Suite 028''))
   \<and> hex8 (take 8 (sha256_hex ''90210''))"
  using anonymizeCustomer_fields [of jane "''jane.doe''" "''example.com''"]
  by (simp add: jane_def jane_anonymized_def)

text \<open>C4 as stated fails for an email with a second \<open>@\<close>: what follows it is dropped,
  so the domain part is not preserved.\<close>

theorem anonymizeCustomer_second_at:
  "CHR ''@'' \<in> set (email jane_two_ats)
   \<and> map_sum id email (anonymizeCustomer jane_two_ats)
       = Inr (take 8 (sha256_hex ''jane'') @ ''@doe'')
   \<and> map_sum id email (anonymizeCustomer jane_two_ats)
       \<noteq> Inr (take 8 (sha256_hex ''jane'') @ ''@doe@example.com'')"
  by (simp add: anonymizeCustomer_result jane_two_ats_def jane_def at_index_def
      interpolate_def)

text \<open>
  Claim C5, as amended: applying the anonymizer raises no error, whether the email
  contains an \<open>@\<close> or not.
\<close>

theorem anonymizeCustomer_never_fails: "\<exists>c'. anonymizeCustomer c = Inr c'"
  by (simp add: anonymizeCustomer_result)

text \<open>C5 as stated fails for an email with no \<open>@\<close>: the call returns a record, whose
  email is the digest of the whole text followed by \<open>@undefined\<close>.\<close>

theorem anonymizeCustomer_without_at:
  "CHR ''@'' \<notin> set (email jane_no_at)
   \<and> anonymizeCustomer jane_no_at
       = Inr (jane_anonymized\<lparr>email := take 8 (sha256_hex ''jane.doe'') @ ''@undefined''\<rparr>)"
  by (simp add: anonymizeCustomer_result jane_no_at_def jane_def jane_anonymized_def
      at_index_def interpolate_def)

section \<open>The store\<close>

lemma sortByCreatedAt_set: "set (sortByCreatedAt docs) = set docs"
  by (simp add: sortByCreatedAt_def)

lemma findOneOldest_Nil: "findOneOldest [] = None"
  by (simp add: findOneOldest_def sortByCreatedAt_def)

lemma findOneOldest_Min:
  assumes "docs \<noteq> []"
  shows "\<exists>d. findOneOldest docs = Some d \<and> createdAt d = Min (createdAt ` set docs)"
proof (cases "sortByCreatedAt docs")
  case Nil
  then have "set docs = {}"
    using sortByCreatedAt_set [of docs] by simp
  with assms show ?thesis by simp
next
  case (Cons d rest)
  have "sorted (map createdAt (sortByCreatedAt docs))"
    by (simp add: sortByCreatedAt_def)
  then have least: "\<forall>x \<in> set (d # rest). createdAt d \<le> createdAt x"
    using Cons by auto
  have mem: "set (d # rest) = set docs"
    using Cons sortByCreatedAt_set [of docs] by simp
  have "Min (createdAt ` set docs) = createdAt d"
  proof (rule Min_eqI)
    show "finite (createdAt ` set docs)" by simp
    show "\<And>y. y \<in> createdAt ` set docs \<Longrightarrow> createdAt d \<le> y"
      using least mem by auto
    show "createdAt d \<in> createdAt ` set docs"
      using mem by auto
  qed
  then show ?thesis
    using Cons by (simp add: findOneOldest_def)
qed

lemma insertEach_accepted:
  "distinct (map oid ds) \<Longrightarrow> \<forall>d \<in> set ds. oid d \<notin> oid ` set docs
     \<Longrightarrow> insertEach docs ds = (None, docs @ ds)"
proof (induction ds arbitrary: docs)
  case Nil
  show ?case by simp
next
  case (Cons d ds)
  have fresh: "oid d \<notin> oid ` set docs" and rest: "oid d \<notin> oid ` set ds"
    using Cons.prems by auto
  have "\<forall>x \<in> set ds. oid x \<notin> oid ` set (docs @ [d])"
  proof
    fix x assume x: "x \<in> set ds"
    then have "oid x \<notin> oid ` set docs"
      using Cons.prems by simp
    moreover have "oid x \<noteq> oid d"
      using x rest by (metis imageI)
    ultimately show "oid x \<notin> oid ` set (docs @ [d])"
      by simp
  qed
  moreover have "distinct (map oid ds)"
    using Cons.prems by simp
  ultimately have "insertEach (docs @ [d]) ds = (None, (docs @ [d]) @ ds)"
    by (rule Cons.IH [rotated])
  then show ?case
    using fresh by (simp add: insertOne_def)
qed

lemma insertMany_accepted: "accepts docs ds \<Longrightarrow> insertMany docs ds = (None, docs @ ds)"
  by (simp add: accepts_def insertMany_def insertEach_accepted list_all_iff)

lemma insertMany_ok_not_Nil: "insertMany docs ds = (None, docs') \<Longrightarrow> ds \<noteq> []"
  by (auto simp: insertMany_def)


lemma insertEach_ok:
  "insertEach docs ds = (None, docs') \<Longrightarrow>
     distinct (map oid ds) \<and> (\<forall>d \<in> set ds. oid d \<notin> oid ` set docs)"
proof (induction ds arbitrary: docs)
  case Nil
  show ?case by simp
next
  case (Cons d ds)
  have fresh: "oid d \<notin> oid ` set docs"
    using Cons.prems by (auto simp: insertOne_def split: if_splits)
  then have "insertEach (docs @ [d]) ds = (None, docs')"
    using Cons.prems by (simp add: insertOne_def)
  then have IH: "distinct (map oid ds)" "\<forall>x \<in> set ds. oid x \<notin> oid ` set (docs @ [d])"
    using Cons.IH by blast+
  have "oid d \<notin> oid ` set ds"
  proof
    assume "oid d \<in> oid ` set ds"
    then obtain x where "x \<in> set ds" and "oid x = oid d"
      by (metis imageE)
    then show False
      using IH(2) by simp
  qed
  moreover have "\<forall>x \<in> set ds. oid x \<notin> oid ` set docs"
    using IH(2) by simp
  ultimately show ?case
    using fresh IH(1) by simp
qed

lemma insertMany_rejected: "\<not> accepts docs ds \<Longrightarrow> fst (insertMany docs ds) \<noteq> None"
proof
  assume no: "\<not> accepts docs ds" and "fst (insertMany docs ds) = None"
  then have ok: "insertMany docs ds = (None, snd (insertMany docs ds))"
    by (metis prod.collapse)
  then have "ds \<noteq> []"
    by (rule insertMany_ok_not_Nil)
  moreover from this ok have "insertEach docs ds = (None, snd (insertMany docs ds))"
    by (simp add: insertMany_def)
  then have "distinct (map oid ds) \<and> (\<forall>d \<in> set ds. oid d \<notin> oid ` set docs)"
    by (rule insertEach_ok)
  ultimately have "accepts docs ds"
    by (simp add: accepts_def list_all_iff)
  with no show False ..
qed

section \<open>The forward syncer\<close>

lemma emit_fields:
  "pointer_store (emit a x w) = pointer_store w" "target (emit a x w) = target w"
  "source (emit a x w) = source w" "lockfile (emit a x w) = lockfile w"
  by (simp_all add: emit_def)

lemma push_anonymized_eq: "push_anonymized cs buf = (None, buf @ map anonymized cs)"
  by (induction cs arbitrary: buf) (simp_all add: anonymizeCustomer_anonymized)

lemma with_pointer_pursuer:
  "buffer (fst (with_pointer rt p w)) = buffer p"
  "window (fst (with_pointer rt p w)) = window p"
  by (simp_all add: with_pointer_def loadPointer_def Let_def split: option.splits)

lemma with_pointer_world:
  "source (snd (with_pointer rt p w)) = source w"
  "target (snd (with_pointer rt p w)) = target w"
  "lockfile (snd (with_pointer rt p w)) = lockfile w"
  "pointer_store (snd (with_pointer rt p w)) = pointer_store w"
  "clock (snd (with_pointer rt p w)) = clock w"
  by (simp_all add: with_pointer_def loadPointer_def Let_def emit_def split: option.splits)


text \<open>\<^verbatim>\<open>loop\<close> in one piece: load, fetch, and flush when due.\<close>

lemma loop_eq:
  "loop rt p w =
     (let p1 = fst (with_pointer rt p w);
          w2 = emit ForwardSyncer SourceRead (snd (with_pointer rt p w));
          buf = refilled rt p w
      in if flush_due rt p w then
           (case insertMany (target w) buf of
              (Some e, docs) \<Rightarrow>
                (Some e, p1\<lparr>buffer := buf\<rparr>,
                 emit ForwardSyncer TargetWrite (w2\<lparr>target := docs\<rparr>))
            | (None, docs) \<Rightarrow>
                (None, p1\<lparr>pointer := Some (Date (createdAt (last buf))), buffer := []\<rparr>,
                 emit ForwardSyncer (CheckpointWrite (createdAt (last buf)))
                   (emit ForwardSyncer TargetWrite
                      (w2\<lparr>target := docs, pointer_store := Some (ISOString (createdAt (last buf)))\<rparr>))))
         else (None, p1\<lparr>buffer := buf\<rparr>, w2))"
proof -
  obtain p1 w1 where pw: "with_pointer rt p w = (p1, w1)"
    by (cases "with_pointer rt p w")
  have same: "buffer p1 = buffer p" "window p1 = window p" "source w1 = source w"
    "target w1 = target w"
    using with_pointer_pursuer [of rt p w] with_pointer_world [of rt p w] pw by simp_all
  define buf where "buf = buffer p1 @ map anonymized (forward_query rt p1 (source w1))"
  have R: "refilled rt p w = buf"
    using pw same by (simp add: refilled_def Let_def buf_def)
  have F: "flush_due rt p w = (int (length buf) = window p1 \<or> buffer p1 \<noteq> [])"
    using same by (simp add: flush_due_def R)
  have T: "target w = target w1"
    using same by simp
  have C: "(int (length (buffer p1)) + int (length (forward_query rt p1 (source w1)))
             = window p1 \<or> buffer p1 \<noteq> []) = flush_due rt p w"
    unfolding F by (simp add: buf_def)
  show ?thesis
  proof (cases "flush_due rt p w")
    case False
    then show ?thesis
      unfolding loop_def with_pointer_def [symmetric] pw
      by (simp add: Let_def push_anonymized_eq C R buf_def emit_def)
  next
    case True
    obtain rejected docs where ins: "insertMany (target w1) buf = (rejected, docs)"
      by (cases "insertMany (target w1) buf")
    show ?thesis
    proof (cases rejected)
      case (Some e)
      then show ?thesis
        unfolding loop_def with_pointer_def [symmetric] pw
        using True ins
        by (simp add: Let_def push_anonymized_eq C R T buf_def emit_def)
    next
      case None
      then have "buf \<noteq> []"
        using ins insertMany_ok_not_Nil by blast
      then obtain b bs where bbs: "buffer p1 @ map anonymized (forward_query rt p1 (source w1)) = b # bs"
        unfolding buf_def by (cases "buffer p1 @ map anonymized (forward_query rt p1 (source w1))") auto
      show ?thesis
        unfolding loop_def with_pointer_def [symmetric] pw
        using True ins None bbs
        by (simp add: Let_def push_anonymized_eq C R T buf_def emit_def storePointer_def)
    qed
  qed
qed


lemma checkpoints_emit:
  "checkpoints_of a (emit b x w) = checkpoints_of a w @ checkpoint_by a (b, x)"
  by (simp add: checkpoints_of_def emit_def)


lemma checkpoints_update:
  "checkpoints_of a (w\<lparr>target := docs\<rparr>) = checkpoints_of a w"
  "checkpoints_of a (w\<lparr>pointer_store := f\<rparr>) = checkpoints_of a w"
  "checkpoints_of a (w\<lparr>source := docs\<rparr>) = checkpoints_of a w"
  "checkpoints_of a (w\<lparr>lockfile := b\<rparr>) = checkpoints_of a w"
  "checkpoints_of a (w\<lparr>clock := t\<rparr>) = checkpoints_of a w"
  by (simp_all add: checkpoints_of_def)


lemma with_pointer_checkpoints:
  "checkpoints_of a (snd (with_pointer rt p w)) = checkpoints_of a w"
  by (simp add: checkpoints_of_def with_pointer_def loadPointer_def Let_def emit_def
      split: option.splits)


text \<open>The fetch is limited to what the window has left: a buffer that starts below the
  window is never filled beyond it.\<close>

lemma cursor_limit_length: "0 < n \<Longrightarrow> int (length (cursor_limit n xs)) \<le> n"
  by (simp add: cursor_limit_def)

lemma refilled_bound:
  assumes "int (length (buffer p)) < window p"
  shows "int (length (refilled rt p w)) \<le> window p"
proof -
  define p1 where "p1 = fst (with_pointer rt p w)"
  have same: "buffer p1 = buffer p" "window p1 = window p"
    by (simp_all add: p1_def with_pointer_pursuer)
  have "int (length (forward_query rt p1 (source w))) \<le> window p - int (length (buffer p))"
    unfolding forward_query_def same using assms by (intro cursor_limit_length) simp
  then show ?thesis
    by (simp add: refilled_def Let_def p1_def [symmetric] same)
qed
text \<open>
  Claim C6, as amended. With no checkpoint in memory and no checkpoint file, the pointer
  that is derived is 60 seconds before the creation time of the oldest source record
  and, when the source is empty, 60 seconds before the current time.
\<close>

theorem loadPointer_derived:
  assumes "pointer p = None" and "pointer_store w = None"
  shows "with_pointer rt p w = loadPointer rt p w
         \<and> pointer (fst (loadPointer rt p w)) =
             Some (Date ((if source w = [] then clock w
                          else Min (createdAt ` set (source w))) - 60 * 1000))"
proof (cases "source w = []")
  case True
  then show ?thesis
    using assms
    by (simp add: with_pointer_def loadPointer_def Let_def emit_def findOneOldest_Nil)
next
  case False
  then obtain d where "findOneOldest (source w) = Some d"
    and "createdAt d = Min (createdAt ` set (source w))"
    using findOneOldest_Min by blast
  then show ?thesis
    using assms False
    by (simp add: with_pointer_def loadPointer_def Let_def emit_def)
qed

theorem loadPointer_derived_witness:
  "with_pointer strict_runtime (new_Pursuer None) one_record_world
     = loadPointer strict_runtime (new_Pursuer None) one_record_world
   \<and> pointer (fst (loadPointer strict_runtime (new_Pursuer None) one_record_world)) =
       Some (Date (1700000000000 - 60 * 1000))"
  using loadPointer_derived [of "new_Pursuer None" one_record_world strict_runtime]
  by (simp add: new_Pursuer_def one_record_world_def empty_world_def jane_def)

text \<open>C6 as stated fails for an empty source: the pointer is not the current time but
  a minute before it.\<close>

theorem loadPointer_empty_source:
  "source empty_world = [] \<and> pointer_store empty_world = None
   \<and> clock empty_world = 1700000300000
   \<and> pointer (fst (loadPointer strict_runtime (new_Pursuer None) empty_world))
       = Some (Date 1700000240000)"
  by (simp add: loadPointer_def empty_world_def Let_def emit_def findOneOldest_Nil)

text \<open>The two ticks of the scenario of C7.\<close>

lemma forward_query_first:
  assumes "1 < win"
  shows "forward_query rt \<lparr>pointer = Some (Date (createdAt c - 60000)), window = win,
                           buffer = []\<rparr> [c] = [c]"
  using assms
  by (simp add: forward_query_def createdAfter_def sortByCreatedAt_def cursor_limit_def)

lemma forward_query_second:
  "forward_query rt \<lparr>pointer = Some (Date (createdAt c - 60000)), window = win,
                     buffer = [b]\<rparr> [c] = []"
  by (simp add: forward_query_def createdAfter_def sortByCreatedAt_def cursor_limit_def)

lemma first_tick:
  assumes "source w = [c]" and "pointer_store w = None" and "\<not> lockfile w" and "1 < win"
  shows "Pursuer_tick rt \<lparr>pointer = None, window = win, buffer = []\<rparr> w =
           (None,
            \<lparr>pointer = Some (Date (createdAt c - 60000)), window = win,
             buffer = [anonymized c]\<rparr>,
            w\<lparr>trace := trace w @ [(ForwardSyncer, SourceRead), (ForwardSyncer, SourceRead)]\<rparr>)"
proof -
  let ?p = "\<lparr>pointer = None, window = win, buffer = []\<rparr>"
  have oldest: "findOneOldest [c] = Some c"
    by (simp add: findOneOldest_def sortByCreatedAt_def)
  have wp: "with_pointer rt ?p w =
              (\<lparr>pointer = Some (Date (createdAt c - 60000)), window = win, buffer = []\<rparr>,
               w\<lparr>trace := trace w @ [(ForwardSyncer, SourceRead)]\<rparr>)"
    using assms(1,2) by (simp add: with_pointer_def loadPointer_def Let_def emit_def oldest)
  have buf: "refilled rt ?p w = [anonymized c]"
    using assms(1,4) by (simp add: refilled_def Let_def wp forward_query_first)
  have "\<not> flush_due rt ?p w"
    using assms(4) by (simp add: flush_due_def buf)
  then show ?thesis
    using assms(3) by (simp add: Pursuer_tick_def loop_eq wp buf emit_def)
qed

lemma second_tick:
  assumes "source w = [c]" and "\<not> lockfile w" and "oid c \<notin> oid ` set (target w)"
  shows "Pursuer_tick rt \<lparr>pointer = Some (Date (createdAt c - 60000)), window = win,
                          buffer = [anonymized c]\<rparr> w =
           (None,
            \<lparr>pointer = Some (Date (createdAt c)), window = win, buffer = []\<rparr>,
            w\<lparr>target := target w @ [anonymized c],
              pointer_store := Some (ISOString (createdAt c)),
              trace := trace w @ [(ForwardSyncer, SourceRead), (ForwardSyncer, TargetWrite),
                                  (ForwardSyncer, CheckpointWrite (createdAt c))]\<rparr>)"
proof -
  let ?p = "\<lparr>pointer = Some (Date (createdAt c - 60000)), window = win,
             buffer = [anonymized c]\<rparr>"
  have wp: "with_pointer rt ?p w = (?p, w)"
    by (simp add: with_pointer_def)
  have buf: "refilled rt ?p w = [anonymized c]"
    using assms(1) by (simp add: refilled_def Let_def wp forward_query_second)
  have due: "flush_due rt ?p w"
    by (simp add: flush_due_def)
  have "accepts (target w) [anonymized c]"
    using assms(3) by (simp add: accepts_def anonymized_oid)
  then have ins: "insertMany (target w) [anonymized c] = (None, target w @ [anonymized c])"
    by (rule insertMany_accepted)
  show ?thesis
    using assms(2) due
    by (simp add: Pursuer_tick_def loop_eq wp buf ins emit_def anonymized_createdAt)
qed

text \<open>
  Claim C7, as amended. A tick with the lock not held issues the bulk insert of the
  buffer exactly when, after the fetch, the buffer has as many records as the window or
  the buffer was not empty when the tick began; the fetch never fills a buffer that
  started below the window beyond the window. When the insert is due and the store
  accepts the batch, the tick ends with the buffer appended to the target, the pointer at
  the creation time of the last record of the buffer, that time in the checkpoint file
  and the buffer empty. When it is due and the store rejects the batch (an \<open>_id\<close> of the
  buffer is in the target already), the tick fails: the pointer is not advanced, nothing
  is stored in the checkpoint file and the buffer is kept. When it is not due, the tick
  keeps the refilled buffer and writes nothing. In particular, for a source of one
  record \<open>c\<close>, no checkpoint file, no lock, a window of more than one record and a target
  without that record, the first tick of a new forward syncer only buffers the
  anonymized record, and the second inserts it and stores the creation time of \<open>c\<close>.
\<close>

theorem tick_flushes_when_due:
  assumes "\<not> lockfile w" and "flush_due rt p w" and "accepts (target w) (refilled rt p w)"
    and "\<not> lockfile x" and "\<not> flush_due rt q x"
    and "\<not> lockfile y" and "flush_due rt r y" and "\<not> accepts (target y) (refilled rt r y)"
    and "int (length (buffer b)) < window b"
    and "source v = [c]" and "pointer_store v = None" and "\<not> lockfile v"
    and "oid c \<notin> oid ` set (target v)" and "1 < win"
  shows "Pursuer_tick rt p w =
           (None,
            (fst (with_pointer rt p w))
              \<lparr>pointer := Some (Date (createdAt (last (refilled rt p w)))), buffer := []\<rparr>,
            (snd (with_pointer rt p w))
              \<lparr>target := target w @ refilled rt p w,
               pointer_store := Some (ISOString (createdAt (last (refilled rt p w)))),
               trace := trace (snd (with_pointer rt p w))
                          @ [(ForwardSyncer, SourceRead), (ForwardSyncer, TargetWrite),
                             (ForwardSyncer, CheckpointWrite (createdAt (last (refilled rt p w))))]\<rparr>)
         \<and> Pursuer_tick rt q x =
           (None,
            (fst (with_pointer rt q x))\<lparr>buffer := refilled rt q x\<rparr>,
            (snd (with_pointer rt q x))
              \<lparr>trace := trace (snd (with_pointer rt q x)) @ [(ForwardSyncer, SourceRead)]\<rparr>)
         \<and> fst (Pursuer_tick rt r y) \<noteq> None
         \<and> fst (snd (Pursuer_tick rt r y)) = (fst (with_pointer rt r y))\<lparr>buffer := refilled rt r y\<rparr>
         \<and> pointer_store (snd (snd (Pursuer_tick rt r y))) = pointer_store y
         \<and> checkpoints_of ForwardSyncer (snd (snd (Pursuer_tick rt r y)))
             = checkpoints_of ForwardSyncer y
         \<and> target_writes ForwardSyncer (snd (snd (Pursuer_tick rt r y)))
             = Suc (target_writes ForwardSyncer y)
         \<and> int (length (refilled rt b z)) \<le> window b
         \<and> Pursuer_tick rt \<lparr>pointer = None, window = win, buffer = []\<rparr> v =
           (None,
            \<lparr>pointer = Some (Date (createdAt c - 60 * 1000)), window = win,
             buffer = [anonymized c]\<rparr>,
            v\<lparr>trace := trace v @ [(ForwardSyncer, SourceRead), (ForwardSyncer, SourceRead)]\<rparr>)
         \<and> Pursuer_tick rt \<lparr>pointer = Some (Date (createdAt c - 60 * 1000)), window = win,
                          buffer = [anonymized c]\<rparr>
           (v\<lparr>trace := trace v @ [(ForwardSyncer, SourceRead), (ForwardSyncer, SourceRead)]\<rparr>) =
           (None,
            \<lparr>pointer = Some (Date (createdAt c)), window = win, buffer = []\<rparr>,
            v\<lparr>target := target v @ [anonymized c],
              pointer_store := Some (ISOString (createdAt c)),
              trace := trace v @ [(ForwardSyncer, SourceRead), (ForwardSyncer, SourceRead),
                                  (ForwardSyncer, SourceRead), (ForwardSyncer, TargetWrite),
                                  (ForwardSyncer, CheckpointWrite (createdAt c))]\<rparr>)"
proof (intro conjI)
  have "target (snd (with_pointer rt p w)) = target w"
    by (rule with_pointer_world)
  then show "Pursuer_tick rt p w =
           (None,
            (fst (with_pointer rt p w))
              \<lparr>pointer := Some (Date (createdAt (last (refilled rt p w)))), buffer := []\<rparr>,
            (snd (with_pointer rt p w))
              \<lparr>target := target w @ refilled rt p w,
               pointer_store := Some (ISOString (createdAt (last (refilled rt p w)))),
               trace := trace (snd (with_pointer rt p w))
                          @ [(ForwardSyncer, SourceRead), (ForwardSyncer, TargetWrite),
                             (ForwardSyncer, CheckpointWrite (createdAt (last (refilled rt p w))))]\<rparr>)"
    using assms(1,2) insertMany_accepted [OF assms(3)]
    by (simp add: Pursuer_tick_def loop_eq Let_def emit_def)
  show "Pursuer_tick rt q x =
           (None,
            (fst (with_pointer rt q x))\<lparr>buffer := refilled rt q x\<rparr>,
            (snd (with_pointer rt q x))
              \<lparr>trace := trace (snd (with_pointer rt q x)) @ [(ForwardSyncer, SourceRead)]\<rparr>)"
    using assms(4,5) by (simp add: Pursuer_tick_def loop_eq Let_def emit_def)
  obtain e docs where ins: "insertMany (target y) (refilled rt r y) = (Some e, docs)"
    using insertMany_rejected [OF assms(8)]
    by (cases "insertMany (target y) (refilled rt r y)") auto
  have tick: "Pursuer_tick rt r y =
                (Some e, (fst (with_pointer rt r y))\<lparr>buffer := refilled rt r y\<rparr>,
                 emit ForwardSyncer TargetWrite
                   ((emit ForwardSyncer SourceRead (snd (with_pointer rt r y)))\<lparr>target := docs\<rparr>))"
    using assms(6,7) ins by (simp add: Pursuer_tick_def loop_eq Let_def)
  show "fst (Pursuer_tick rt r y) \<noteq> None"
    by (simp add: tick)
  show "fst (snd (Pursuer_tick rt r y)) = (fst (with_pointer rt r y))\<lparr>buffer := refilled rt r y\<rparr>"
    by (simp add: tick)
  show "pointer_store (snd (snd (Pursuer_tick rt r y))) = pointer_store y"
    by (simp add: tick emit_fields with_pointer_world)
  show "checkpoints_of ForwardSyncer (snd (snd (Pursuer_tick rt r y)))
          = checkpoints_of ForwardSyncer y"
    by (simp add: tick checkpoints_emit checkpoints_update with_pointer_checkpoints)
  have "target_writes ForwardSyncer (snd (with_pointer rt r y)) = target_writes ForwardSyncer y"
    by (simp add: target_writes_def with_pointer_def loadPointer_def Let_def emit_def
        split: option.splits)
  then show "target_writes ForwardSyncer (snd (snd (Pursuer_tick rt r y)))
          = Suc (target_writes ForwardSyncer y)"
    by (simp add: tick target_writes_def emit_def)
  show "int (length (refilled rt b z)) \<le> window b"
    using assms(9) by (rule refilled_bound)
  show "Pursuer_tick rt \<lparr>pointer = None, window = win, buffer = []\<rparr> v =
           (None,
            \<lparr>pointer = Some (Date (createdAt c - 60 * 1000)), window = win,
             buffer = [anonymized c]\<rparr>,
            v\<lparr>trace := trace v @ [(ForwardSyncer, SourceRead), (ForwardSyncer, SourceRead)]\<rparr>)"
    using first_tick [OF assms(10,11,12,14)] by simp
  show "Pursuer_tick rt \<lparr>pointer = Some (Date (createdAt c - 60 * 1000)), window = win,
                          buffer = [anonymized c]\<rparr>
           (v\<lparr>trace := trace v @ [(ForwardSyncer, SourceRead), (ForwardSyncer, SourceRead)]\<rparr>) =
           (None,
            \<lparr>pointer = Some (Date (createdAt c)), window = win, buffer = []\<rparr>,
            v\<lparr>target := target v @ [anonymized c],
              pointer_store := Some (ISOString (createdAt c)),
              trace := trace v @ [(ForwardSyncer, SourceRead), (ForwardSyncer, SourceRead),
                                  (ForwardSyncer, SourceRead), (ForwardSyncer, TargetWrite),
                                  (ForwardSyncer, CheckpointWrite (createdAt c))]\<rparr>)"
    using assms(10,12,13)
      second_tick [of "v\<lparr>trace := trace v @ [(ForwardSyncer, SourceRead), (ForwardSyncer, SourceRead)]\<rparr>" c rt win]
    by simp
qed

text \<open>The tick whose flush the store rejects: the target already holds the record that
  is in the buffer.\<close>

lemma rejected_tick:
  "Pursuer_tick strict_runtime
     \<lparr>pointer = Some (Date 1699999940000), window = 1000, buffer = [jane_anonymized]\<rparr>
     synced_world =
     (Some DuplicateKey,
      \<lparr>pointer = Some (Date 1699999940000), window = 1000, buffer = [jane_anonymized]\<rparr>,
      synced_world\<lparr>trace := [(ForwardSyncer, SourceRead), (ForwardSyncer, TargetWrite)]\<rparr>)"
proof -
  let ?p = "\<lparr>pointer = Some (Date 1699999940000), window = 1000, buffer = [jane_anonymized]\<rparr>"
  have T: "createdAt jane = 1700000000000" "oid jane_anonymized = 1"
    by (simp_all add: jane_def jane_anonymized_def)
  have w: "source synced_world = [jane]" "target synced_world = [jane_anonymized]"
    "\<not> lockfile synced_world" "trace synced_world = []"
    by (simp_all add: synced_world_def one_record_world_def empty_world_def)
  have wp: "with_pointer strict_runtime ?p synced_world = (?p, synced_world)"
    by (simp add: with_pointer_def)
  have buf: "refilled strict_runtime ?p synced_world = [jane_anonymized]"
    using forward_query_second [of strict_runtime jane 1000 jane_anonymized]
    by (simp add: refilled_def Let_def wp w T)
  have due: "flush_due strict_runtime ?p synced_world"
    by (simp add: flush_due_def)
  have ins: "insertMany [jane_anonymized] [jane_anonymized]
               = (Some DuplicateKey, [jane_anonymized])"
    by (simp add: insertMany_def insertOne_def)
  show ?thesis
    using w(3) due
    by (simp add: Pursuer_tick_def loop_eq Let_def wp buf ins emit_def w)
qed

text \<open>The scenario with the record \<open>jane\<close> and the default window: its second tick is
  a tick that flushes, its first a tick that does not; and the rejected tick.\<close>

theorem tick_flushes_when_due_witness:
  "Pursuer_tick strict_runtime (new_Pursuer None) one_record_world =
     (None,
      \<lparr>pointer = Some (Date 1699999940000), window = 1000, buffer = [jane_anonymized]\<rparr>,
      one_record_world\<lparr>trace := [(ForwardSyncer, SourceRead), (ForwardSyncer, SourceRead)]\<rparr>)
   \<and> Pursuer_tick strict_runtime
       \<lparr>pointer = Some (Date 1699999940000), window = 1000, buffer = [jane_anonymized]\<rparr>
       (one_record_world\<lparr>trace := [(ForwardSyncer, SourceRead), (ForwardSyncer, SourceRead)]\<rparr>) =
     (None,
      \<lparr>pointer = Some (Date 1700000000000), window = 1000, buffer = []\<rparr>,
      one_record_world
        \<lparr>target := [jane_anonymized],
         pointer_store := Some (ISOString 1700000000000),
         trace := [(ForwardSyncer, SourceRead), (ForwardSyncer, SourceRead),
                   (ForwardSyncer, SourceRead), (ForwardSyncer, TargetWrite),
                   (ForwardSyncer, CheckpointWrite 1700000000000)]\<rparr>)
   \<and> pointer_store (snd (snd (Pursuer_tick strict_runtime
        \<lparr>pointer = Some (Date 1699999940000), window = 1000, buffer = [jane_anonymized]\<rparr>
        synced_world))) = None
   \<and> int (length (refilled strict_runtime (new_Pursuer None) one_record_world)) \<le> 1000"
proof -
  let ?rt = strict_runtime
  let ?q = "new_Pursuer None"
  let ?x = one_record_world
  let ?p = "\<lparr>pointer = Some (Date 1699999940000), window = 1000, buffer = [jane_anonymized]\<rparr>"
  let ?w = "one_record_world\<lparr>trace := [(ForwardSyncer, SourceRead), (ForwardSyncer, SourceRead)]\<rparr>"
  have anon: "anonymized jane = jane_anonymized"
    by (simp add: anonymized_def jane_anonymized)
  have T: "createdAt jane = 1700000000000" "oid jane = 1"
    "createdAt jane_anonymized = 1700000000000" "oid jane_anonymized = 1"
    by (simp_all add: jane_def jane_anonymized_def)
  have src: "source ?x = [jane]" "pointer_store ?x = None" "\<not> lockfile ?x"
    "oid jane \<notin> oid ` set (target ?x)" "trace ?x = []" "target ?x = []"
    by (simp_all add: one_record_world_def empty_world_def)
  have syn: "source synced_world = [jane]" "target synced_world = [jane_anonymized]"
    "\<not> lockfile synced_world" "pointer_store synced_world = None"
    by (simp_all add: synced_world_def one_record_world_def empty_world_def)
  have one: "(1::int) < 1000"
    by simp
  have wq: "with_pointer ?rt ?q ?x =
              (\<lparr>pointer = Some (Date 1699999940000), window = 1000, buffer = []\<rparr>,
               ?x\<lparr>trace := [(ForwardSyncer, SourceRead)]\<rparr>)"
    using findOneOldest_Min [of "[jane]"]
    by (auto simp: with_pointer_def loadPointer_def Let_def emit_def new_Pursuer_def src T)
  have rq: "refilled ?rt ?q ?x = [jane_anonymized]"
    using forward_query_first [of 1000 ?rt jane]
    by (simp add: refilled_def Let_def wq src T anon)
  have nq: "\<not> flush_due ?rt ?q ?x"
    unfolding flush_due_def rq by (simp add: new_Pursuer_def)
  have wp: "with_pointer ?rt ?p ?w = (?p, ?w)"
    by (simp add: with_pointer_def)
  have rp: "refilled ?rt ?p ?w = [jane_anonymized]"
    using forward_query_second [of ?rt jane 1000 jane_anonymized]
    by (simp add: refilled_def Let_def wp src T)
  have dp: "flush_due ?rt ?p ?w"
    by (simp add: flush_due_def)
  have ap: "accepts (target ?w) (refilled ?rt ?p ?w)"
    unfolding rp by (simp add: accepts_def one_record_world_def empty_world_def)
  have lw: "\<not> lockfile ?w"
    by (simp add: src)
  have wy: "with_pointer ?rt ?p synced_world = (?p, synced_world)"
    by (simp add: with_pointer_def)
  have ry: "refilled ?rt ?p synced_world = [jane_anonymized]"
    using forward_query_second [of ?rt jane 1000 jane_anonymized]
    by (simp add: refilled_def Let_def wy syn T)
  have dy: "flush_due ?rt ?p synced_world"
    by (simp add: flush_due_def)
  have ny: "\<not> accepts (target synced_world) (refilled ?rt ?p synced_world)"
    unfolding ry by (simp add: accepts_def syn T)
  have below: "int (length (buffer ?q)) < window ?q"
    by (simp add: new_Pursuer_def)
  from tick_flushes_when_due
    [OF lw dp ap src(3) nq syn(3) dy ny below src(1,2,3,4) one, of ?x]
  show ?thesis
    unfolding rp rq wp wq by (simp add: new_Pursuer_def anon T src syn)
qed

text \<open>C7 as stated fails at a tick whose flush is due while the target already holds
  the buffered record: the lock is free and the buffer was not empty, yet the tick ends
  with the error, the pointer where it was, no checkpoint file and the buffer kept.\<close>

theorem tick_flush_rejected:
  "\<not> lockfile synced_world
   \<and> flush_due strict_runtime
       \<lparr>pointer = Some (Date 1699999940000), window = 1000, buffer = [jane_anonymized]\<rparr>
       synced_world
   \<and> Pursuer_tick strict_runtime
       \<lparr>pointer = Some (Date 1699999940000), window = 1000, buffer = [jane_anonymized]\<rparr>
       synced_world =
     (Some DuplicateKey,
      \<lparr>pointer = Some (Date 1699999940000), window = 1000, buffer = [jane_anonymized]\<rparr>,
      synced_world\<lparr>trace := [(ForwardSyncer, SourceRead), (ForwardSyncer, TargetWrite)]\<rparr>)
   \<and> pointer_store synced_world = None \<and> target synced_world = [jane_anonymized]"
  using rejected_tick
  by (simp add: flush_due_def synced_world_def one_record_world_def empty_world_def)

section \<open>The lock\<close>

lemma Updater_run_locked:
  "lockfile w \<Longrightarrow> Updater_run u w = (u\<lparr>timers := timers u @ [3000]\<rparr>, w)"
  by (simp add: Updater_run_def)

lemma Pursuer_tick_locked: "lockfile w \<Longrightarrow> Pursuer_tick rt p w = (None, p\<lparr>pointer := None\<rparr>, w)"
  by (simp add: Pursuer_tick_def)

lemma on_data_locked:
  "lockfile w \<Longrightarrow>
     on_data d u w = (None, u\<lparr>cursor := ClosedCursor, timers := timers u @ [3000]\<rparr>, w)"
  by (simp add: on_data_def Updater_run_locked)

lemma stream_event_locked: "lockfile w \<Longrightarrow> snd (snd (stream_event u w)) = w"
  by (simp add: stream_event_def on_data_locked Updater_run_locked
      split: cursor.splits list.splits)

lemma timer_event_locked: "lockfile w \<Longrightarrow> snd (timer_event u w) = w"
  by (simp add: timer_event_def Updater_run_locked split: list.splits)

lemma actor_step_locked:
  assumes "lockfile w" and "actor_step s"
  shows "snd (snd (do_step rt s (p, u, w))) = w"
proof (cases s)
  case Tick
  then show ?thesis
    using assms(1) by (simp add: Pursuer_tick_locked)
next
  case StreamEvent
  then show ?thesis
    using stream_event_locked [OF assms(1), of u] by (simp add: split_beta)
next
  case TimerEvent
  then show ?thesis
    using timer_event_locked [OF assms(1), of u] by (simp add: split_beta)
qed (use assms(2) in simp_all)

text \<open>While the lock stays held, no step of the two actors touches the world: neither
  a collection, nor a file, nor the trace.\<close>

lemma actor_steps_locked:
  "lockfile w \<Longrightarrow> list_all actor_step steps
     \<Longrightarrow> snd (snd (do_steps rt steps (p, u, w))) = w"
proof (induction steps arbitrary: p u)
  case Nil
  show ?case by (simp add: do_steps_def)
next
  case (Cons s steps)
  obtain p1 u1 w1 where st: "do_step rt s (p, u, w) = (p1, u1, w1)"
    by (cases "do_step rt s (p, u, w)")
  have "w1 = w"
    using actor_step_locked [of w s rt p u] Cons.prems st by simp
  then show ?case
    using Cons st by (simp add: do_steps_def)
qed

text \<open>
  Claim C9. With the lock held, the tick of the forward syncer does nothing but drop
  its pointer, and the reconciler's handler closes the cursor and schedules a retry
  3000 ms later instead of updating the record; the world is left as it was. Over any
  sequence of ticks, stream events and timer events during which the lock is held, the
  world (the target, and the trace of writes) does not change.
\<close>

theorem locked_actors_write_nothing:
  assumes "lockfile w" and "list_all actor_step steps"
  shows "Pursuer_tick rt p w = (None, p\<lparr>pointer := None\<rparr>, w)
         \<and> on_data d u w =
             (None, u\<lparr>cursor := ClosedCursor, timers := timers u @ [3000]\<rparr>, w)
         \<and> snd (snd (do_steps rt steps (p, u, w))) = w"
  using assms by (simp add: Pursuer_tick_locked on_data_locked actor_steps_locked)

theorem locked_actors_write_nothing_witness:
  "Pursuer_tick strict_runtime
     \<lparr>pointer = Some (Date 1699999940000), window = 1000, buffer = [jane_anonymized]\<rparr>
     locked_world =
     (None, \<lparr>pointer = None, window = 1000, buffer = [jane_anonymized]\<rparr>, locked_world)
   \<and> on_data jane_anonymized \<lparr>cursor = OpenCursor [], timers = []\<rparr> locked_world =
       (None, \<lparr>cursor = ClosedCursor, timers = [3000]\<rparr>, locked_world)
   \<and> snd (snd (do_steps strict_runtime [Tick, StreamEvent, TimerEvent, Tick]
        (\<lparr>pointer = Some (Date 1699999940000), window = 1000, buffer = [jane_anonymized]\<rparr>,
         \<lparr>cursor = OpenCursor [], timers = []\<rparr>, locked_world))) = locked_world"
proof -
  have l: "lockfile locked_world"
    by (simp add: locked_world_def)
  have s: "list_all actor_step [Tick, StreamEvent, TimerEvent, Tick]"
    by simp
  from locked_actors_write_nothing [OF l s] show ?thesis
    by simp
qed

section \<open>Startup\<close>

text \<open>
  Claim C1, as amended. Started with \<^verbatim>\<open>--full-reindex\<close> while the lock is held, the
  process does not reindex and reads and writes nothing, but it does not exit either: it
  starts the continuous mode, with a new forward syncer and a reconciler whose first
  retry is scheduled. For as long as the lock stays held, the steps of those two leave
  the collections untouched.
\<close>

theorem run_reindex_while_locked:
  assumes "\<not> unset (DB_URI cfg)" and "\<not> unset (SOURCE_COLLECTION cfg)"
    and "\<not> unset (TARGET_COLLECTION cfg)"
    and "IS_FULL_REINDEX \<in> set (argv cfg)" and "lockfile w"
    and "list_all actor_step steps"
  shows "run rt cfg w =
           (Continuous (new_Pursuer (BUFFER_SIZE cfg)) \<lparr>cursor = NoCursor, timers = [3000]\<rparr>,
            [], w)
         \<and> snd (snd (do_steps rt steps
                  (new_Pursuer (BUFFER_SIZE cfg), \<lparr>cursor = NoCursor, timers = [3000]\<rparr>, w))) = w"
  using assms
  by (simp add: run_def Updater_run_locked new_Updater_def actor_steps_locked)

theorem run_reindex_while_locked_witness:
  "run strict_runtime reindex_config locked_world =
     (Continuous (new_Pursuer None) \<lparr>cursor = NoCursor, timers = [3000]\<rparr>, [],
      locked_world)
   \<and> snd (snd (do_steps strict_runtime [Tick, TimerEvent, Tick]
            (new_Pursuer None, \<lparr>cursor = NoCursor, timers = [3000]\<rparr>, locked_world)))
       = locked_world"
proof -
  have c: "\<not> unset (DB_URI reindex_config)" "\<not> unset (SOURCE_COLLECTION reindex_config)"
    "\<not> unset (TARGET_COLLECTION reindex_config)"
    "IS_FULL_REINDEX \<in> set (argv reindex_config)"
    by (simp_all add: reindex_config_def unset_def IS_FULL_REINDEX_def)
  have l: "lockfile locked_world"
    by (simp add: locked_world_def)
  have s: "list_all actor_step [Tick, TimerEvent, Tick]"
    by simp
  from run_reindex_while_locked [OF c l s] show ?thesis
    by (simp add: reindex_config_def)
qed

text \<open>C1 as stated fails: the process started with the flag while the lock is held
  does not exit; \<^verbatim>\<open>run\<close> ends with the continuous actors installed.\<close>

theorem run_reindex_while_locked_continues:
  "IS_FULL_REINDEX \<in> set (argv reindex_config) \<and> lockfile locked_world
   \<and> fst (run strict_runtime reindex_config locked_world) =
       Continuous \<lparr>pointer = None, window = 1000, buffer = []\<rparr>
                  \<lparr>cursor = NoCursor, timers = [3000]\<rparr>"
  by (simp add: run_def reindex_config_def locked_world_def empty_world_def unset_def
      IS_FULL_REINDEX_def Updater_run_def new_Updater_def new_Pursuer_def)









section \<open>The stored checkpoints\<close>






















section \<open>A checkpoint file that holds no timestamp\<close>

lemma loadPointer_invalid:
  assumes "pointer_store w = Some (OtherText s)" and "parseDate rt s = InvalidDate"
  shows "loadPointer rt p w = (p\<lparr>pointer := Some InvalidDate\<rparr>, w)"
  using assms by (simp add: loadPointer_def newDate_def)

lemma refilled_invalid:
  assumes "pointer p = None" and "pointer_store w = Some (OtherText s)"
    and "parseDate rt s = InvalidDate"
  shows "refilled rt p w =
           buffer p @ map anonymized
             (cursor_limit (window p - int (length (buffer p)))
                (drop (length (buffer p))
                   (sortByCreatedAt (filter (gtInvalidDate rt) (source w)))))"
proof -
  have "createdAfter rt (Some InvalidDate) = gtInvalidDate rt"
    by (rule ext) (simp add: createdAfter_def)
  then show ?thesis
    using assms
    by (simp add: refilled_def Let_def with_pointer_def loadPointer_invalid forward_query_def)
qed

text \<open>
  Claim C10, as amended. Loading the checkpoint does not fail on a file whose contents
  are not a timestamp: the pointer becomes an invalid date. What the forward query then
  fetches is what the store selects as created after an invalid date: the tick buffers
  the anonymized form of those records, up to the window. When the store selects none
  (and the buffer is empty and the window is not 0), the tick fetches nothing, does not
  flush and raises no error.
\<close>

theorem invalid_checkpoint_loads:
  assumes "pointer p = None" and "pointer_store w = Some (OtherText s)"
    and "parseDate rt s = InvalidDate"
    and "\<not> lockfile w" and "buffer p = []" and "window p \<noteq> 0"
    and "list_all (\<lambda>d. \<not> gtInvalidDate rt d) (source w)"
    and "pointer q = None" and "pointer_store x = Some (OtherText s')"
    and "parseDate rt' s' = InvalidDate"
  shows "loadPointer rt p w = (p\<lparr>pointer := Some InvalidDate\<rparr>, w)
         \<and> Pursuer_tick rt p w =
             (None, p\<lparr>pointer := Some InvalidDate\<rparr>,
              w\<lparr>trace := trace w @ [(ForwardSyncer, SourceRead)]\<rparr>)
         \<and> loadPointer rt' q x = (q\<lparr>pointer := Some InvalidDate\<rparr>, x)
         \<and> refilled rt' q x =
             buffer q @ map anonymized
               (cursor_limit (window q - int (length (buffer q)))
                  (drop (length (buffer q))
                     (sortByCreatedAt (filter (gtInvalidDate rt') (source x)))))"
proof (intro conjI)
  show "loadPointer rt p w = (p\<lparr>pointer := Some InvalidDate\<rparr>, w)"
    using assms(2,3) by (rule loadPointer_invalid)
  show "loadPointer rt' q x = (q\<lparr>pointer := Some InvalidDate\<rparr>, x)"
    using assms(9,10) by (rule loadPointer_invalid)
  show "refilled rt' q x =
             buffer q @ map anonymized
               (cursor_limit (window q - int (length (buffer q)))
                  (drop (length (buffer q))
                     (sortByCreatedAt (filter (gtInvalidDate rt') (source x)))))"
    using assms(8,9,10) by (rule refilled_invalid)
  have none: "filter (gtInvalidDate rt) (source w) = []"
    using assms(7) by (simp add: list_all_iff filter_empty_conv)
  have buf: "refilled rt p w = []"
    using assms(5)
    by (simp add: refilled_invalid [OF assms(1,2,3)] none sortByCreatedAt_def cursor_limit_def)
  have "\<not> flush_due rt p w"
    using assms(5,6) by (simp add: flush_due_def buf)
  then show "Pursuer_tick rt p w =
             (None, p\<lparr>pointer := Some InvalidDate\<rparr>,
              w\<lparr>trace := trace w @ [(ForwardSyncer, SourceRead)]\<rparr>)"
    using assms(1,4,5)
    by (simp add: Pursuer_tick_def loop_eq Let_def buf with_pointer_def
        loadPointer_invalid [OF assms(2,3)] emit_def)
qed

lemma garbled_first_tick:
  "Pursuer_tick driver_runtime (new_Pursuer None) garbled_world =
     (None, \<lparr>pointer = Some InvalidDate, window = 1000, buffer = [jane_anonymized]\<rparr>,
      garbled_world\<lparr>trace := [(ForwardSyncer, SourceRead)]\<rparr>)"
proof -
  let ?q = "\<lparr>pointer = None, window = 1000, buffer = []\<rparr>"
  have w: "pointer_store garbled_world = Some (OtherText ''not a date'')"
    "source garbled_world = [jane]" "\<not> lockfile garbled_world" "trace garbled_world = []"
    by (simp_all add: garbled_world_def one_record_world_def empty_world_def)
  have rt: "parseDate driver_runtime ''not a date'' = InvalidDate"
    by (simp add: driver_runtime_def)
  have anon: "anonymized jane = jane_anonymized"
    by (simp add: anonymized_def jane_anonymized)
  have sel: "filter (gtInvalidDate driver_runtime) [jane] = [jane]"
    by (simp add: driver_runtime_def jane_def)
  have wp: "with_pointer driver_runtime ?q garbled_world
              = (\<lparr>pointer = Some InvalidDate, window = 1000, buffer = []\<rparr>, garbled_world)"
    by (simp add: with_pointer_def loadPointer_invalid [OF w(1) rt])
  have "refilled driver_runtime ?q garbled_world =
          buffer ?q @ map anonymized
             (cursor_limit (window ?q - int (length (buffer ?q)))
                (drop (length (buffer ?q))
                   (sortByCreatedAt (filter (gtInvalidDate driver_runtime) (source garbled_world)))))"
    by (rule refilled_invalid [OF _ w(1) rt]) simp
  then have buf: "refilled driver_runtime ?q garbled_world = [jane_anonymized]"
    unfolding w(2) sel by (simp add: sortByCreatedAt_def cursor_limit_def anon)
  have nd: "\<not> flush_due driver_runtime ?q garbled_world"
    unfolding flush_due_def buf by simp
  have "Pursuer_tick driver_runtime ?q garbled_world =
     (None, \<lparr>pointer = Some InvalidDate, window = 1000, buffer = [jane_anonymized]\<rparr>,
      garbled_world\<lparr>trace := [(ForwardSyncer, SourceRead)]\<rparr>)"
    unfolding Pursuer_tick_def loop_eq Let_def buf wp
    using w(3) nd by (simp add: emit_def w(4))
  then show ?thesis
    by (simp add: new_Pursuer_def)
qed

lemma garbled_second_tick:
  "Pursuer_tick driver_runtime
     \<lparr>pointer = Some InvalidDate, window = 1000, buffer = [jane_anonymized]\<rparr>
     (garbled_world\<lparr>trace := [(ForwardSyncer, SourceRead)]\<rparr>) =
     (None, \<lparr>pointer = Some (Date 1700000000000), window = 1000, buffer = []\<rparr>,
      garbled_world
        \<lparr>target := [jane_anonymized],
         pointer_store := Some (ISOString 1700000000000),
         trace := [(ForwardSyncer, SourceRead), (ForwardSyncer, SourceRead),
                   (ForwardSyncer, TargetWrite),
                   (ForwardSyncer, CheckpointWrite 1700000000000)]\<rparr>)"
proof -
  let ?p = "\<lparr>pointer = Some InvalidDate, window = 1000, buffer = [jane_anonymized]\<rparr>"
  let ?w = "garbled_world\<lparr>trace := [(ForwardSyncer, SourceRead)]\<rparr>"
  have w: "source ?w = [jane]" "\<not> lockfile ?w" "target ?w = []"
    by (simp_all add: garbled_world_def one_record_world_def empty_world_def)
  have T: "createdAt jane_anonymized = 1700000000000"
    by (simp add: jane_anonymized_def)
  have wp: "with_pointer driver_runtime ?p ?w = (?p, ?w)"
    by (simp add: with_pointer_def)
  have sel: "filter (createdAfter driver_runtime (Some InvalidDate)) [jane] = [jane]"
    by (simp add: createdAfter_def driver_runtime_def jane_def)
  have buf: "refilled driver_runtime ?p ?w = [jane_anonymized]"
    unfolding refilled_def Let_def wp w(1) forward_query_def
    by (simp add: sel sortByCreatedAt_def cursor_limit_def)
  have due: "flush_due driver_runtime ?p ?w"
    by (simp add: flush_due_def)
  have ins: "insertMany (target ?w) [jane_anonymized] = (None, [jane_anonymized])"
    unfolding w(3) by (simp add: insertMany_def insertOne_def)
  show ?thesis
    unfolding Pursuer_tick_def loop_eq Let_def buf wp ins
    using w(2) due by (simp add: emit_def T)
qed

theorem invalid_checkpoint_loads_witness:
  "loadPointer strict_runtime (new_Pursuer None) garbled_world
     = (\<lparr>pointer = Some InvalidDate, window = 1000, buffer = []\<rparr>, garbled_world)
   \<and> Pursuer_tick strict_runtime (new_Pursuer None) garbled_world =
       (None, \<lparr>pointer = Some InvalidDate, window = 1000, buffer = []\<rparr>,
        garbled_world\<lparr>trace := [(ForwardSyncer, SourceRead)]\<rparr>)
   \<and> refilled driver_runtime (new_Pursuer None) garbled_world = [jane_anonymized]"
proof -
  have w: "pointer_store garbled_world = Some (OtherText ''not a date'')"
    "source garbled_world = [jane]" "\<not> lockfile garbled_world" "trace garbled_world = []"
    by (simp_all add: garbled_world_def one_record_world_def empty_world_def)
  have rt: "parseDate strict_runtime ''not a date'' = InvalidDate"
    "parseDate driver_runtime ''not a date'' = InvalidDate"
    by (simp_all add: strict_runtime_def driver_runtime_def)
  have p: "pointer (new_Pursuer None) = None" "buffer (new_Pursuer None) = []"
    "window (new_Pursuer None) \<noteq> 0"
    by (simp_all add: new_Pursuer_def)
  have none: "list_all (\<lambda>d. \<not> gtInvalidDate strict_runtime d) (source garbled_world)"
    unfolding w(2) by (simp add: strict_runtime_def)
  have anon: "anonymized jane = jane_anonymized"
    by (simp add: anonymized_def jane_anonymized)
  have sel: "filter (gtInvalidDate driver_runtime) [jane] = [jane]"
    by (simp add: driver_runtime_def jane_def)
  from invalid_checkpoint_loads [OF p(1) w(1) rt(1) w(3) p(2,3) none p(1) w(1) rt(2)]
  show ?thesis
    unfolding w(2) sel
    by (simp add: new_Pursuer_def w(4) sortByCreatedAt_def cursor_limit_def anon)
qed

text \<open>C10 as stated fails where the driver sends the invalid date as the time value 0:
  the first tick fetches and buffers the record, and the second flushes it.\<close>

theorem invalid_checkpoint_fetches:
  "pointer_store garbled_world = Some (OtherText ''not a date'')
   \<and> Pursuer_tick driver_runtime (new_Pursuer None) garbled_world =
       (None, \<lparr>pointer = Some InvalidDate, window = 1000, buffer = [jane_anonymized]\<rparr>,
        garbled_world\<lparr>trace := [(ForwardSyncer, SourceRead)]\<rparr>)
   \<and> Pursuer_tick driver_runtime
       \<lparr>pointer = Some InvalidDate, window = 1000, buffer = [jane_anonymized]\<rparr>
       (garbled_world\<lparr>trace := [(ForwardSyncer, SourceRead)]\<rparr>) =
       (None, \<lparr>pointer = Some (Date 1700000000000), window = 1000, buffer = []\<rparr>,
        garbled_world
          \<lparr>target := [jane_anonymized],
           pointer_store := Some (ISOString 1700000000000),
           trace := [(ForwardSyncer, SourceRead), (ForwardSyncer, SourceRead),
                     (ForwardSyncer, TargetWrite),
                     (ForwardSyncer, CheckpointWrite 1700000000000)]\<rparr>)"
  using garbled_first_tick garbled_second_tick
  by (simp add: garbled_world_def one_record_world_def empty_world_def)

end
